theory Spec2Isabelle
  imports Main "HOL-Library.Sublist"
begin

section \<open>Programs with exceptions over an explicit state\<close>

text \<open>
  Every function of the repository is an \<^verbatim>\<open>async\<close> arrow function that awaits calls of
  the Appwrite SDK inside \<^verbatim>\<open>try { ... } catch (error) { ... }\<close>.  A program is a state
  transformer that either resolves with a value (\<open>Inr\<close>) or rejects with an exception
  (\<open>Inl\<close>); \<open>await\<close> runs a program and passes what it resolved with to the rest, a
  rejection skipping the rest; \<open>try_catch\<close> hands a rejection to the handler.
\<close>

datatype exn = AppwriteException string | RangeError string

type_synonym ('s, 'a) prog = "'s \<Rightarrow> (exn + 'a) \<times> 's"

definition ret :: "'a \<Rightarrow> ('s, 'a) prog" where
  "ret a = (\<lambda>s. (Inr a, s))"

definition throw :: "exn \<Rightarrow> ('s, 'a) prog" where
  "throw e = (\<lambda>s. (Inl e, s))"

definition await :: "('s, 'a) prog \<Rightarrow> ('a \<Rightarrow> ('s, 'b) prog) \<Rightarrow> ('s, 'b) prog" where
  "await m k = (\<lambda>s. case m s of (Inl e, s') \<Rightarrow> (Inl e, s') | (Inr a, s') \<Rightarrow> k a s')"

definition seq :: "('s, unit) prog \<Rightarrow> ('s, 'b) prog \<Rightarrow> ('s, 'b) prog" where
  "seq m k = await m (\<lambda>_. k)"

definition try_catch :: "('s, 'a) prog \<Rightarrow> (exn \<Rightarrow> ('s, 'a) prog) \<Rightarrow> ('s, 'a) prog" where
  "try_catch m h = (\<lambda>s. case m s of (Inl e, s') \<Rightarrow> h e s' | (Inr a, s') \<Rightarrow> (Inr a, s'))"

section \<open>The data model\<close>

text \<open>
  \<^verbatim>\<open>createdAt.toISOString()\<close> is stored with the record; the ISO-8601 text of an
  instant is kept as the instant it denotes (milliseconds since the epoch).
\<close>

datatype iso8601 = ISO int

text \<open>\<^verbatim>\<open>interface Image\<close> of \<^verbatim>\<open>interface/Image.ts\<close>: the Picture Record.\<close>

record Image =
  imageName :: string
  createdAt :: iso8601
  imageId :: string
  imageUrl :: string
  documentId :: string

text \<open>A document of the collection: \<^verbatim>\<open>$id\<close> and the four attributes the application writes.\<close>

record document =
  d_id :: string
  d_imageId :: string
  d_imageName :: string
  d_createdAt :: iso8601
  d_imageUrl :: string

text \<open>A browser \<^verbatim>\<open>File\<close> (its name and its bytes) and a file of the storage bucket.\<close>

record File =
  name :: string
  bytes :: string

record blob =
  b_id :: string
  b_name :: string
  b_bytes :: string

text \<open>A JavaScript \<^verbatim>\<open>Date\<close>: a time value, or the Invalid Date, whose time value is NaN.\<close>

datatype date = Date int | InvalidDate

record payload =
  p_imageId :: string
  p_imageName :: string
  p_createdAt :: iso8601
  p_imageUrl :: string

datatype query = StartsWith string string | Equal string string

datatype sdk_call =
    ListDocuments "query list"
  | ListFiles "query list"
  | CreateFile string File
  | CreateDocument string payload
  | DeleteDocument string
  | DeleteFile string

datatype console_entry = Log string | Error string

text \<open>The calls of the React state setters of \<^verbatim>\<open>Home\<close> and \<^verbatim>\<open>UploadPicture\<close>.\<close>

datatype setter =
    SetTotalImageNumber nat
  | SetTotalImageNumber_prev_plus_1
  | SetSearchImage string
  | SetDebouncedSearchTerm string
  | SetLoading bool
  | SetRefreshFetch_not_prev
  | SetImageList "Image list"
  | SetToUpload bool
  | SetImage "File option"

datatype event = Request sdk_call | Console console_entry | Set setter

text \<open>
  The state outside the page: the collection and the bucket held by the service, and
  the trace of what the program has done so far, in order: the requests sent, the lines
  written to the console and the state setters called.
\<close>

record world =
  collection :: "document list"
  bucket :: "blob list"
  trace :: "event list"

text \<open>
  What one run cannot decide by itself: which requests the service rejects (network,
  permission, quota), the identifiers the service generates, the two readings of the
  clock (\<^verbatim>\<open>new Date()\<close> in \<^verbatim>\<open>handleUpload\<close>, \<^verbatim>\<open>Date.now()\<close> in
  \<^verbatim>\<open>updatePictureDatabase\<close>), the address
  \<^verbatim>\<open>getFileView\<close> builds for a file, and the collation under which the service
  compares strings.
\<close>

record env =
  rejects :: "sdk_call \<Rightarrow> bool"
  unique_file_id :: string
  unique_document_id :: string
  new_Date :: int
  Date_now :: int
  file_view :: "string \<Rightarrow> string"
  collate :: "char \<Rightarrow> char"

record 'a listing =
  total :: nat
  entries :: "'a list"

section \<open>The Appwrite SDK\<close>

text \<open>
  Modelled from the spec: the SDK and the service behind it are a dependency whose code
  is not part of the repository.  Section 6 of the specification names the operations:
  on the bucket an existence check by name, create, retrieve a view reference, delete;
  on the collection list with an optional prefix filter on \<open>imageName\<close>, create, delete.
  A rejected request throws and changes nothing.  A listing returns every stored entry
  that satisfies all the queries, in stored order (no page limit is modelled).  Create
  refuses an identifier that is already taken, delete refuses one that is absent.
\<close>

definition console_log :: "string \<Rightarrow> (world, unit) prog" where
  "console_log msg = (\<lambda>w. (Inr (), w\<lparr>trace := trace w @ [Console (Log msg)]\<rparr>))"

definition console_error :: "string \<Rightarrow> (world, unit) prog" where
  "console_error msg = (\<lambda>w. (Inr (), w\<lparr>trace := trace w @ [Console (Error msg)]\<rparr>))"

definition send :: "env \<Rightarrow> sdk_call \<Rightarrow> (world, unit) prog" where
  "send env c = (\<lambda>w.
     let w' = w\<lparr>trace := trace w @ [Request c]\<rparr>
     in if rejects env c then (Inl (AppwriteException ''request failed''), w')
        else (Inr (), w'))"

definition startsWith :: "env \<Rightarrow> string \<Rightarrow> string \<Rightarrow> bool" where
  "startsWith env s t = prefix (map (collate env) t) (map (collate env) s)"

definition same_text :: "env \<Rightarrow> string \<Rightarrow> string \<Rightarrow> bool" where
  "same_text env s t = (map (collate env) s = map (collate env) t)"

fun satisfies :: "env \<Rightarrow> (string \<Rightarrow> string option) \<Rightarrow> query \<Rightarrow> bool" where
  "satisfies env attr (StartsWith a v) =
     (case attr a of None \<Rightarrow> False | Some x \<Rightarrow> startsWith env x v)"
| "satisfies env attr (Equal a v) =
     (case attr a of None \<Rightarrow> False | Some x \<Rightarrow> same_text env x v)"

definition document_attribute :: "document \<Rightarrow> string \<Rightarrow> string option" where
  "document_attribute d a =
     (if a = ''$id'' then Some (d_id d)
      else if a = ''imageId'' then Some (d_imageId d)
      else if a = ''imageName'' then Some (d_imageName d)
      else if a = ''imageUrl'' then Some (d_imageUrl d)
      else None)"

definition blob_attribute :: "blob \<Rightarrow> string \<Rightarrow> string option" where
  "blob_attribute b a =
     (if a = ''$id'' then Some (b_id b)
      else if a = ''name'' then Some (b_name b)
      else None)"

definition select_documents :: "env \<Rightarrow> query list \<Rightarrow> document list \<Rightarrow> document list" where
  "select_documents env qs ds =
     filter (\<lambda>d. list_all (satisfies env (document_attribute d)) qs) ds"

definition select_blobs :: "env \<Rightarrow> query list \<Rightarrow> blob list \<Rightarrow> blob list" where
  "select_blobs env qs bs =
     filter (\<lambda>b. list_all (satisfies env (blob_attribute b)) qs) bs"

definition listDocuments :: "env \<Rightarrow> query list \<Rightarrow> (world, document listing) prog" where
  "listDocuments env qs =
     seq (send env (ListDocuments qs))
       (\<lambda>w. let found = select_documents env qs (collection w)
            in (Inr \<lparr>total = length found, entries = found\<rparr>, w))"

definition listFiles :: "env \<Rightarrow> query list \<Rightarrow> (world, blob listing) prog" where
  "listFiles env qs =
     seq (send env (ListFiles qs))
       (\<lambda>w. let found = select_blobs env qs (bucket w)
            in (Inr \<lparr>total = length found, entries = found\<rparr>, w))"

definition createFile :: "env \<Rightarrow> string \<Rightarrow> File \<Rightarrow> (world, blob) prog" where
  "createFile env fileId f =
     seq (send env (CreateFile fileId f))
       (\<lambda>w. let assigned = (if fileId = ''unique()'' then unique_file_id env else fileId);
                b = \<lparr>b_id = assigned, b_name = name f, b_bytes = bytes f\<rparr>
            in if assigned \<in> b_id ` set (bucket w)
               then (Inl (AppwriteException ''file already exists''), w)
               else (Inr b, w\<lparr>bucket := bucket w @ [b]\<rparr>))"

definition getFileView :: "env \<Rightarrow> string \<Rightarrow> string" where
  "getFileView env fileId = file_view env fileId"

definition ID_unique :: "env \<Rightarrow> string" where
  "ID_unique env = unique_document_id env"

definition createDocument :: "env \<Rightarrow> string \<Rightarrow> payload \<Rightarrow> (world, document) prog" where
  "createDocument env docId p =
     seq (send env (CreateDocument docId p))
       (\<lambda>w. let d = \<lparr>d_id = docId, d_imageId = p_imageId p, d_imageName = p_imageName p,
                     d_createdAt = p_createdAt p, d_imageUrl = p_imageUrl p\<rparr>
            in if docId \<in> d_id ` set (collection w)
               then (Inl (AppwriteException ''document already exists''), w)
               else (Inr d, w\<lparr>collection := collection w @ [d]\<rparr>))"

definition deleteDocument :: "env \<Rightarrow> string \<Rightarrow> (world, unit) prog" where
  "deleteDocument env docId =
     seq (send env (DeleteDocument docId))
       (\<lambda>w. if docId \<in> d_id ` set (collection w)
            then (Inr (), w\<lparr>collection := filter (\<lambda>d. d_id d \<noteq> docId) (collection w)\<rparr>)
            else (Inl (AppwriteException ''document not found''), w))"

definition deleteFile :: "env \<Rightarrow> string \<Rightarrow> (world, unit) prog" where
  "deleteFile env fileId =
     seq (send env (DeleteFile fileId))
       (\<lambda>w. if fileId \<in> b_id ` set (bucket w)
            then (Inr (), w\<lparr>bucket := filter (\<lambda>b. b_id b \<noteq> fileId) (bucket w)\<rparr>)
            else (Inl (AppwriteException ''file not found''), w))"

section \<open>The backend client facade (\<^verbatim>\<open>api/appwrite.ts\<close>)\<close>

definition getTotalPicturesCount :: "env \<Rightarrow> (world, nat) prog" where
  "getTotalPicturesCount env =
     try_catch
       (await (listDocuments env []) (\<lambda>response. ret (total response)))
       (\<lambda>error. seq (console_error ''Error fetching total pictures count:'') (ret 0))"

definition picture :: "document \<Rightarrow> Image" where
  "picture doc = \<lparr>imageName = d_imageName doc, createdAt = d_createdAt doc,
     imageId = d_imageId doc, imageUrl = d_imageUrl doc, documentId = d_id doc\<rparr>"

text \<open>The result \<open>None\<close> is \<^verbatim>\<open>undefined\<close>: the \<^verbatim>\<open>catch\<close> block returns no value.\<close>

definition fetchPictures :: "env \<Rightarrow> string \<Rightarrow> (world, Image list option) prog" where
  "fetchPictures env query =
     try_catch
       (seq (console_log ''Fetching pictures with query:'')
         (await (if query \<noteq> [] then listDocuments env [StartsWith ''imageName'' query]
                 else listDocuments env [])
           (\<lambda>response. ret (Some (map picture (entries response))))))
       (\<lambda>error. seq (console_error ''Error fetching all pictures:'') (ret None))"

text \<open>The result \<open>None\<close> is \<^verbatim>\<open>null\<close>.\<close>

definition uploadPicture :: "env \<Rightarrow> File \<Rightarrow> (world, string option) prog" where
  "uploadPicture env f =
     try_catch
       (await (listFiles env [Equal ''name'' (name f)])
         (\<lambda>checkStorage.
            if total checkStorage > 0
            then seq (console_error ''File with the same name already exists in storage.'')
                   (ret None)
            else await (createFile env ''unique()'' f)
                   (\<lambda>response. ret (Some (b_id response)))))
       (\<lambda>error. seq (console_error ''Error uploading picture:'') (ret None))"

text \<open>
  \<^verbatim>\<open>getTime()\<close> of the Invalid Date is NaN (\<open>None\<close>), every comparison with NaN is
  false, and \<^verbatim>\<open>toISOString()\<close> of the Invalid Date throws a RangeError.
\<close>

definition getTime :: "date \<Rightarrow> int option" where
  "getTime d = (case d of Date t \<Rightarrow> Some t | InvalidDate \<Rightarrow> None)"

definition greater :: "int option \<Rightarrow> int \<Rightarrow> bool" where
  "greater x y = (case x of None \<Rightarrow> False | Some t \<Rightarrow> t > y)"

definition toISOString :: "date \<Rightarrow> ('s, iso8601) prog" where
  "toISOString d =
     (case d of Date t \<Rightarrow> ret (ISO t) | InvalidDate \<Rightarrow> throw (RangeError ''Invalid time value''))"

text \<open>
  An argument typed \<^verbatim>\<open>string\<close> or \<^verbatim>\<open>Date\<close> is an option: \<open>None\<close> is \<^verbatim>\<open>null\<close> or
  \<^verbatim>\<open>undefined\<close>, which is what \<^verbatim>\<open>x == null\<close> tests.
\<close>

definition updatePictureDatabase ::
    "env \<Rightarrow> string option \<Rightarrow> string option \<Rightarrow> date option \<Rightarrow> (world, unit) prog" where
  "updatePictureDatabase env image_id image_name created_at =
     try_catch
       (case (image_id, image_name, created_at) of
          (Some i, Some n, Some c) \<Rightarrow>
            if greater (getTime c) (Date_now env)
            then seq (console_error ''Invalid parameters for updating picture database.'')
                   (ret ())
            else
              let getImageUrl = getFileView env i in
              await (toISOString c)
                (\<lambda>iso. await (createDocument env (ID_unique env)
                          \<lparr>p_imageId = i, p_imageName = n, p_createdAt = iso,
                           p_imageUrl = getImageUrl\<rparr>)
                   (\<lambda>_. console_log ''Picture database updated successfully.''))
        | _ \<Rightarrow>
            seq (console_error ''Invalid parameters for updating picture database.'')
              (ret ()))
       (\<lambda>error. seq (console_error ''Error updating picture database:'') (ret ()))"

text \<open>\<^verbatim>\<open>!x\<close> on a string that may be null: true of \<^verbatim>\<open>null\<close>, \<^verbatim>\<open>undefined\<close> and \<^verbatim>\<open>""\<close>.\<close>

definition falsy :: "string option \<Rightarrow> bool" where
  "falsy x = (case x of None \<Rightarrow> True | Some s \<Rightarrow> s = [])"

definition deletePicture ::
    "env \<Rightarrow> string option \<Rightarrow> string option \<Rightarrow> (world, unit) prog" where
  "deletePicture env image_id document_id =
     try_catch
       (case (image_id, document_id) of
          (Some i, Some d) \<Rightarrow>
            if falsy (Some i) \<or> falsy (Some d)
            then seq (console_error ''Image ID is required to delete a picture.'') (ret ())
            else seq (deleteDocument env d) (deleteFile env i)
        | _ \<Rightarrow> seq (console_error ''Image ID is required to delete a picture.'') (ret ()))
       (\<lambda>error. console_error ''Error deleting picture:'')"

section \<open>The page: \<^verbatim>\<open>Home\<close>, \<^verbatim>\<open>SearchBar\<close>, \<^verbatim>\<open>UploadPicture\<close>, \<^verbatim>\<open>ImageCard\<close>\<close>

text \<open>
  The \<^verbatim>\<open>useState\<close> cells of \<^verbatim>\<open>Home\<close> and of \<^verbatim>\<open>UploadPicture\<close>, the timeout that the
  debounce effect of \<^verbatim>\<open>Home\<close> has pending (the time at which it fires and the
  \<^verbatim>\<open>searchImage\<close> its closure holds), and the world outside.
\<close>

record page =
  totalImageNumber :: nat
  searchImage :: string
  debouncedSearchTerm :: string
  loading :: bool
  refreshFetch :: bool
  imageList :: "Image list"
  toUpload :: bool
  image :: "File option"
  handler :: "(int \<times> string) option"
  outside :: world

text \<open>A program on the world runs on the page; a setter writes its cell and is traced.\<close>

definition api :: "(world, 'a) prog \<Rightarrow> (page, 'a) prog" where
  "api m = (\<lambda>p. case m (outside p) of (r, w') \<Rightarrow> (r, p\<lparr>outside := w'\<rparr>))"

definition called :: "setter \<Rightarrow> page \<Rightarrow> page" where
  "called x p = p\<lparr>outside := (outside p)\<lparr>trace := trace (outside p) @ [Set x]\<rparr>\<rparr>"

definition setTotalImageNumber :: "nat \<Rightarrow> (page, unit) prog" where
  "setTotalImageNumber n =
     (\<lambda>p. (Inr (), called (SetTotalImageNumber n) (p\<lparr>totalImageNumber := n\<rparr>)))"

definition setTotalImageNumber_prev_plus_1 :: "(page, unit) prog" where
  "setTotalImageNumber_prev_plus_1 =
     (\<lambda>p. (Inr (), called SetTotalImageNumber_prev_plus_1
                     (p\<lparr>totalImageNumber := totalImageNumber p + 1\<rparr>)))"

definition setSearchImage :: "string \<Rightarrow> (page, unit) prog" where
  "setSearchImage v = (\<lambda>p. (Inr (), called (SetSearchImage v) (p\<lparr>searchImage := v\<rparr>)))"

definition setDebouncedSearchTerm :: "string \<Rightarrow> (page, unit) prog" where
  "setDebouncedSearchTerm v =
     (\<lambda>p. (Inr (), called (SetDebouncedSearchTerm v) (p\<lparr>debouncedSearchTerm := v\<rparr>)))"

definition setLoading :: "bool \<Rightarrow> (page, unit) prog" where
  "setLoading b = (\<lambda>p. (Inr (), called (SetLoading b) (p\<lparr>loading := b\<rparr>)))"

definition setRefreshFetch_not_prev :: "(page, unit) prog" where
  "setRefreshFetch_not_prev =
     (\<lambda>p. (Inr (), called SetRefreshFetch_not_prev (p\<lparr>refreshFetch := \<not> refreshFetch p\<rparr>)))"

definition setImageList :: "Image list \<Rightarrow> (page, unit) prog" where
  "setImageList xs = (\<lambda>p. (Inr (), called (SetImageList xs) (p\<lparr>imageList := xs\<rparr>)))"

definition setToUpload :: "bool \<Rightarrow> (page, unit) prog" where
  "setToUpload b = (\<lambda>p. (Inr (), called (SetToUpload b) (p\<lparr>toUpload := b\<rparr>)))"

definition setImage :: "File option \<Rightarrow> (page, unit) prog" where
  "setImage f = (\<lambda>p. (Inr (), called (SetImage f) (p\<lparr>image := f\<rparr>)))"

text \<open>
  \<^verbatim>\<open>promise.finally(f)\<close>: \<open>f\<close> runs whether the promise resolved or rejected, and the
  outcome of the promise is kept unless \<open>f\<close> itself throws.
\<close>

definition finally_do :: "('s, 'a) prog \<Rightarrow> ('s, unit) prog \<Rightarrow> ('s, 'a) prog" where
  "finally_do m k = (\<lambda>s. case m s of (r, s') \<Rightarrow>
     (case k s' of (Inl e, s'') \<Rightarrow> (Inl e, s'') | (Inr _, s'') \<Rightarrow> (r, s'')))"

subsection \<open>\<^verbatim>\<open>Home\<close>\<close>

text \<open>
  \<^verbatim>\<open>getAllImages\<close> awaits the imported \<^verbatim>\<open>fetchPictures\<close>; the model takes the awaited
  function as the argument \<open>fetch\<close>, so that what it proves holds for a fetch that
  rejects as well, and \<^verbatim>\<open>Home\<close> passes \<open>fetchPictures env\<close>.
\<close>

definition getAllImages ::
    "(string \<Rightarrow> (world, Image list option) prog) \<Rightarrow> string \<Rightarrow> (page, unit) prog" where
  "getAllImages fetch searchTerm =
     seq (setLoading True)
       (try_catch
          (await (api (fetch searchTerm))
             (\<lambda>response.
                case response of
                  None \<Rightarrow> seq (api (console_error ''No images found'')) (setImageList [])
                | Some fetched \<Rightarrow>
                    if length fetched = 0
                    then seq (api (console_error ''No images found'')) (setImageList [])
                    else setImageList fetched))
          (\<lambda>error. api (console_error ''Error fetching images:'')))"

text \<open>
  The second effect of \<^verbatim>\<open>Home\<close>:
  \<^verbatim>\<open>getAllImages(debouncedSearchTerm).then(() => setLoading(false))\<close>.
\<close>

definition fetch_effect ::
    "(string \<Rightarrow> (world, Image list option) prog) \<Rightarrow> (page, unit) prog" where
  "fetch_effect fetch =
     (\<lambda>p. await (getAllImages fetch (debouncedSearchTerm p)) (\<lambda>_. setLoading False) p)"

text \<open>
  The input's \<^verbatim>\<open>onChange\<close> at time \<open>t\<close> (milliseconds) with the field's text \<open>v\<close>:
  \<^verbatim>\<open>setSearchImage(e.target.value)\<close>.  When the cell changes, React renders again and
  the first effect of \<^verbatim>\<open>Home\<close>, which depends on \<^verbatim>\<open>searchImage\<close>, is cleaned up
  (\<^verbatim>\<open>clearTimeout(handler)\<close>) and run again (\<^verbatim>\<open>setTimeout(..., 1000)\<close>); a setter called
  with the value the cell already holds renders nothing and runs no effect.
\<close>

definition onChange :: "int \<Rightarrow> string \<Rightarrow> page \<Rightarrow> page" where
  "onChange t v p =
     (let p' = snd (setSearchImage v p)
      in if v = searchImage p then p' else p'\<lparr>handler := Some (t + 1000, v)\<rparr>)"

text \<open>
  The timeout fires: \<^verbatim>\<open>setDebouncedSearchTerm(searchImage)\<close> with the text its closure
  holds; when the cell changes, the second effect of \<^verbatim>\<open>Home\<close> runs.
\<close>

definition timeout_fires ::
    "(string \<Rightarrow> (world, Image list option) prog) \<Rightarrow> page \<Rightarrow> page" where
  "timeout_fires fetch p =
     (case handler p of
        None \<Rightarrow> p
      | Some (due, v) \<Rightarrow>
          let p' = snd (setDebouncedSearchTerm v (p\<lparr>handler := None\<rparr>))
          in if v = debouncedSearchTerm p then p' else snd (fetch_effect fetch p'))"

text \<open>The event loop reaches time \<open>t\<close>: a timeout that is due by then has fired.\<close>

definition elapse ::
    "(string \<Rightarrow> (world, Image list option) prog) \<Rightarrow> int \<Rightarrow> page \<Rightarrow> page" where
  "elapse fetch t p =
     (case handler p of
        None \<Rightarrow> p
      | Some (due, v) \<Rightarrow> if due \<le> t then timeout_fires fetch p else p)"

text \<open>Keystrokes, each with its time and the text of the field after it, in order.\<close>

fun keystrokes ::
    "(string \<Rightarrow> (world, Image list option) prog) \<Rightarrow> (int \<times> string) list \<Rightarrow> page \<Rightarrow> page" where
  "keystrokes fetch [] p = p"
| "keystrokes fetch ((t, v) # ks) p = keystrokes fetch ks (onChange t v (elapse fetch t p))"

text \<open>What \<^verbatim>\<open>Home\<close> renders below the header.\<close>

record card =
  key :: string
  c_documentId :: string
  c_id :: string
  c_name :: string
  c_imageUrl :: string
  c_creationDate :: iso8601

datatype element =
    Images nat
  | Loading
  | ImageCard card
  | Img string string
  | Grid "element list"

text \<open>The props \<^verbatim>\<open>Home\<close> passes to the \<^verbatim>\<open>ImageCard\<close> of one image, \<^verbatim>\<open>key\<close> first.\<close>

definition props :: "Image \<Rightarrow> card" where
  "props i = \<lparr>key = imageId i, c_documentId = documentId i, c_id = imageId i,
     c_name = imageName i, c_imageUrl = imageUrl i, c_creationDate = createdAt i\<rparr>"

definition gallery :: "Image list \<Rightarrow> element list" where
  "gallery images =
     (if length images > 0
      then map (\<lambda>i. ImageCard (props i)) images
      else [Img ''./no-image.png'' ''No images found''])"

definition render :: "page \<Rightarrow> element list" where
  "render p =
     [Images (totalImageNumber p),
      (if loading p then Loading else Grid (gallery (imageList p)))]"

subsection \<open>\<^verbatim>\<open>UploadPicture\<close>\<close>

definition handleFileChange :: "File list option \<Rightarrow> (page, unit) prog" where
  "handleFileChange files =
     (case files of
        Some (f # _) \<Rightarrow> seq (setImage (Some f)) (setToUpload True)
      | _ \<Rightarrow> ret ())"

definition handleUpload :: "env \<Rightarrow> (page, unit) prog" where
  "handleUpload env = (\<lambda>p.
     (case image p of
        None \<Rightarrow> api (console_error ''No image selected for upload.'')
      | Some img \<Rightarrow>
          try_catch
            (await (api (uploadPicture env img))
               (\<lambda>image_id.
                  if falsy image_id
                  then api (console_error ''Failed to upload image.'')
                  else seq (api (updatePictureDatabase env image_id (Some (name img))
                                   (Some (Date (new_Date env)))))
                         (seq setTotalImageNumber_prev_plus_1
                            (api (console_log
                               ''Image uploaded and database updated successfully.'')))))
            (\<lambda>error. api (console_error ''Error uploading picture:''))) p)"

text \<open>
  The first effect of \<^verbatim>\<open>UploadPicture\<close>:
  \<^verbatim>\<open>if (toUpload) handleUpload().then(() => setToUpload(false)).finally(() => setImage(null))\<close>.
\<close>

definition upload_effect :: "env \<Rightarrow> (page, unit) prog" where
  "upload_effect env = (\<lambda>p.
     if toUpload p
     then finally_do (await (handleUpload env) (\<lambda>_. setToUpload False)) (setImage None) p
     else (Inr (), p))"

text \<open>The second effect of \<^verbatim>\<open>UploadPicture\<close>, run when the component is mounted.\<close>

definition mount_effect :: "env \<Rightarrow> (page, unit) prog" where
  "mount_effect env =
     try_catch
       (await (api (getTotalPicturesCount env))
          (\<lambda>n. seq (api (console_log ''Total images count fetched:'')) (setTotalImageNumber n)))
       (\<lambda>error. api (console_error ''error''))"

subsection \<open>\<^verbatim>\<open>ImageCard\<close>\<close>

definition handleDelete :: "env \<Rightarrow> string \<Rightarrow> string \<Rightarrow> (page, unit) prog" where
  "handleDelete env id' document_id =
     try_catch
       (seq (api (deletePicture env (Some id') (Some document_id)))
          (seq (api (console_log ''Image deleted successfully.'')) setRefreshFetch_not_prev))
       (\<lambda>error. api (console_error ''Error deleting image:''))"

section \<open>Reading the trace\<close>

fun sent :: "event list \<Rightarrow> sdk_call list" where
  "sent [] = []"
| "sent (Request c # es) = c # sent es"
| "sent (_ # es) = sent es"

fun set_calls :: "event list \<Rightarrow> setter list" where
  "set_calls [] = []"
| "set_calls (Set x # es) = x # set_calls es"
| "set_calls (_ # es) = set_calls es"

fun errors :: "event list \<Rightarrow> string list" where
  "errors [] = []"
| "errors (Console (Error m) # es) = m # errors es"
| "errors (_ # es) = errors es"

section \<open>Requests and their outcomes\<close>

text \<open>The request each operation sends, and when the service refuses it.\<close>

definition search_request :: "string \<Rightarrow> sdk_call" where
  "search_request t =
     (if t \<noteq> [] then ListDocuments [StartsWith ''imageName'' t] else ListDocuments [])"

definition name_check :: "File \<Rightarrow> sdk_call" where
  "name_check f = ListFiles [Equal ''name'' (name f)]"

definition name_taken :: "env \<Rightarrow> File \<Rightarrow> world \<Rightarrow> bool" where
  "name_taken env f w = list_ex (\<lambda>b. same_text env (b_name b) (name f)) (bucket w)"

definition stored :: "env \<Rightarrow> File \<Rightarrow> blob" where
  "stored env f = \<lparr>b_id = unique_file_id env, b_name = name f, b_bytes = bytes f\<rparr>"

definition new_payload :: "env \<Rightarrow> string \<Rightarrow> string \<Rightarrow> int \<Rightarrow> payload" where
  "new_payload env i n t = \<lparr>p_imageId = i, p_imageName = n, p_createdAt = ISO t,
     p_imageUrl = getFileView env i\<rparr>"

definition write_request :: "env \<Rightarrow> string \<Rightarrow> string \<Rightarrow> int \<Rightarrow> sdk_call" where
  "write_request env i n t = CreateDocument (ID_unique env) (new_payload env i n t)"

definition new_document :: "env \<Rightarrow> string \<Rightarrow> string \<Rightarrow> int \<Rightarrow> document" where
  "new_document env i n t = \<lparr>d_id = ID_unique env, d_imageId = i, d_imageName = n,
     d_createdAt = ISO t, d_imageUrl = getFileView env i\<rparr>"

definition write_refused :: "env \<Rightarrow> string \<Rightarrow> string \<Rightarrow> int \<Rightarrow> world \<Rightarrow> bool" where
  "write_refused env i n t w =
     (rejects env (write_request env i n t) \<or> ID_unique env \<in> d_id ` set (collection w))"

definition record_kept :: "env \<Rightarrow> string \<Rightarrow> world \<Rightarrow> bool" where
  "record_kept env d w = (rejects env (DeleteDocument d) \<or> d \<notin> d_id ` set (collection w))"

definition blob_kept :: "env \<Rightarrow> string \<Rightarrow> world \<Rightarrow> bool" where
  "blob_kept env i w = (rejects env (DeleteFile i) \<or> i \<notin> b_id ` set (bucket w))"

text \<open>Events appended to the trace of the world, or of the world of a page.\<close>

definition traced :: "event list \<Rightarrow> world \<Rightarrow> world" where
  "traced es w = w\<lparr>trace := trace w @ es\<rparr>"

definition logged :: "event list \<Rightarrow> page \<Rightarrow> page" where
  "logged es p = p\<lparr>outside := traced es (outside p)\<rparr>"

text \<open>A fetch that calls no state setter.\<close>

definition silent :: "(string \<Rightarrow> (world, Image list option) prog) \<Rightarrow> bool" where
  "silent fetch = (\<forall>q w. set_calls (trace (snd (fetch q w))) = set_calls (trace w))"

text \<open>The setter calls of \<^verbatim>\<open>getAllImages\<close> after it has got the outcome of the fetch.\<close>

definition shown :: "exn + Image list option \<Rightarrow> setter list" where
  "shown r = (case r of Inl e \<Rightarrow> [] | Inr None \<Rightarrow> [SetImageList []]
     | Inr (Some fetched) \<Rightarrow> [SetImageList fetched])"

text \<open>The fetch as \<^verbatim>\<open>getAllImages\<close> runs it: after \<open>setLoading(true)\<close>, for the debounced term.\<close>

definition fetching ::
    "(string \<Rightarrow> (world, Image list option) prog) \<Rightarrow> page
      \<Rightarrow> (exn + Image list option) \<times> world" where
  "fetching fetch p =
     fetch (debouncedSearchTerm p) (traced [Set (SetLoading True)] (outside p))"

text \<open>
  A burst of keystrokes: in time order, each less than a second after the one before;
  each keystroke changes the text of the field; and no timeout is due at time \<open>t\<close>.
\<close>

fun rapid :: "(int \<times> string) list \<Rightarrow> bool" where
  "rapid [] = True"
| "rapid [k] = True"
| "rapid ((t, v) # (t', v') # ks) = (t \<le> t' \<and> t' < t + 1000 \<and> rapid ((t', v') # ks))"

fun typing :: "string \<Rightarrow> (int \<times> string) list \<Rightarrow> bool" where
  "typing s [] = True"
| "typing s ((t, v) # ks) = (v \<noteq> s \<and> typing v ks)"

definition at_rest :: "int \<Rightarrow> page \<Rightarrow> bool" where
  "at_rest t p = (case handler p of None \<Rightarrow> True | Some (due, v) \<Rightarrow> t < due)"

section \<open>Concrete runs\<close>

text \<open>A service that accepts every request, one that rejects every request.\<close>

definition online :: env where
  "online = \<lparr>rejects = (\<lambda>c. False), unique_file_id = ''f2'', unique_document_id = ''d2'',
     new_Date = 1000, Date_now = 1001, file_view = (\<lambda>i. ''view/'' @ i),
     collate = (\<lambda>c. c)\<rparr>"

definition offline :: env where
  "offline = online\<lparr>rejects := (\<lambda>c. True)\<rparr>"

definition cat_png :: File where
  "cat_png = \<lparr>name = ''cat.png'', bytes = ''meow''\<rparr>"

definition dog_png :: File where
  "dog_png = \<lparr>name = ''dog.png'', bytes = ''woof''\<rparr>"

definition cat_document :: document where
  "cat_document = \<lparr>d_id = ''d1'', d_imageId = ''f1'', d_imageName = ''cat.png'',
     d_createdAt = ISO 500, d_imageUrl = ''view/f1''\<rparr>"

definition empty_store :: world where
  "empty_store = \<lparr>collection = [], bucket = [], trace = []\<rparr>"

definition one_cat :: world where
  "one_cat = \<lparr>collection = [cat_document],
     bucket = [\<lparr>b_id = ''f1'', b_name = ''cat.png'', b_bytes = ''meow''\<rparr>], trace = []\<rparr>"

definition fresh_page :: "world \<Rightarrow> page" where
  "fresh_page w = \<lparr>totalImageNumber = 0, searchImage = [], debouncedSearchTerm = [],
     loading = False, refreshFetch = False, imageList = [], toUpload = False,
     image = None, handler = None, outside = w\<rparr>"

text \<open>A service that rejects the creation of documents only, or the deletion of files only.\<close>

definition no_writes :: env where
  "no_writes = online\<lparr>rejects := (\<lambda>c. case c of CreateDocument d p \<Rightarrow> True | _ \<Rightarrow> False)\<rparr>"

definition no_blob_delete :: env where
  "no_blob_delete = online\<lparr>rejects := (\<lambda>c. case c of DeleteFile i \<Rightarrow> True | _ \<Rightarrow> False)\<rparr>"

text \<open>The page right after \<^verbatim>\<open>handleFileChange\<close> has taken the file \<open>f\<close>.\<close>

definition selected :: "File \<Rightarrow> world \<Rightarrow> page" where
  "selected f w = (fresh_page w)\<lparr>image := Some f, toUpload := True\<rparr>"

text \<open>A fetch that rejects, which \<open>fetchPictures\<close> never does.\<close>

definition broken_fetch :: "string \<Rightarrow> (world, Image list option) prog" where
  "broken_fetch q = throw (AppwriteException ''network'')"

text \<open>The empty store after \<open>cat_png\<close> has been uploaded under the identifier \<open>f2\<close>.\<close>

definition cat_stored :: world where
  "cat_stored = \<lparr>collection = [],
     bucket = [\<lparr>b_id = ''f2'', b_name = ''cat.png'', b_bytes = ''meow''\<rparr>],
     trace = [Request (ListFiles [Equal ''name'' ''cat.png'']),
              Request (CreateFile ''unique()'' cat_png)]\<rparr>"

section \<open>Programs, step by step\<close>

lemmas prog_defs = ret_def throw_def await_def seq_def try_catch_def finally_do_def

lemmas console_defs = console_log_def console_error_def

lemma sent_append [simp]: "sent (xs @ ys) = sent xs @ sent ys"
  by (induction xs rule: sent.induct) simp_all

lemma set_calls_append [simp]: "set_calls (xs @ ys) = set_calls xs @ set_calls ys"
  by (induction xs rule: set_calls.induct) simp_all

lemma errors_append [simp]: "errors (xs @ ys) = errors xs @ errors ys"
  by (induction xs rule: errors.induct) simp_all

subsection \<open>The facade, outcome by outcome\<close>

lemma select_documents_startsWith:
  "select_documents env [StartsWith ''imageName'' t] ds =
     filter (\<lambda>d. startsWith env (d_imageName d) t) ds"
  by (simp add: select_documents_def document_attribute_def)

lemma select_documents_all: "select_documents env [] ds = ds"
  by (simp add: select_documents_def)

lemma startsWith_empty: "startsWith env s []"
  by (simp add: startsWith_def)

lemma select_blobs_name:
  "select_blobs env [Equal ''name'' n] bs = filter (\<lambda>b. same_text env (b_name b) n) bs"
  by (simp add: select_blobs_def blob_attribute_def)

lemma filter_nonempty: "(filter P xs = []) = (\<not> list_ex P xs)"
  by (induction xs) auto

lemma uploadPicture_run:
  "uploadPicture env f w =
     (if rejects env (name_check f)
      then (Inr None, traced [Request (name_check f),
              Console (Error ''Error uploading picture:'')] w)
      else if name_taken env f w
      then (Inr None, traced [Request (name_check f),
              Console (Error ''File with the same name already exists in storage.'')] w)
      else if rejects env (CreateFile ''unique()'' f)
      then (Inr None, traced [Request (name_check f), Request (CreateFile ''unique()'' f),
              Console (Error ''Error uploading picture:'')] w)
      else if unique_file_id env \<in> b_id ` set (bucket w)
      then (Inr None, traced [Request (name_check f), Request (CreateFile ''unique()'' f),
              Console (Error ''Error uploading picture:'')] w)
      else (Inr (Some (unique_file_id env)),
            (traced [Request (name_check f), Request (CreateFile ''unique()'' f)] w)
              \<lparr>bucket := bucket w @ [stored env f]\<rparr>))"
  by (simp add: uploadPicture_def prog_defs listFiles_def createFile_def send_def
      console_defs Let_def select_blobs_name filter_nonempty name_taken_def name_check_def
      stored_def traced_def)

lemma fetchPictures_run:
  "fetchPictures env t w =
     (if rejects env (search_request t)
      then (Inr None, traced [Console (Log ''Fetching pictures with query:''),
              Request (search_request t), Console (Error ''Error fetching all pictures:'')] w)
      else (Inr (Some (map picture
              (filter (\<lambda>d. startsWith env (d_imageName d) t) (collection w)))),
            traced [Console (Log ''Fetching pictures with query:''),
              Request (search_request t)] w))"
  by (simp add: fetchPictures_def search_request_def prog_defs listDocuments_def send_def
      console_defs Let_def select_documents_startsWith select_documents_all
      startsWith_empty traced_def)

lemma updatePictureDatabase_absent:
  "i = None \<or> n = None \<or> c = None \<Longrightarrow>
   updatePictureDatabase env i n c w =
     (Inr (), traced [Console (Error ''Invalid parameters for updating picture database.'')] w)"
  by (auto simp: updatePictureDatabase_def prog_defs console_defs traced_def
      split: option.splits)

lemma updatePictureDatabase_future:
  "Date_now env < t \<Longrightarrow>
   updatePictureDatabase env (Some i) (Some n) (Some (Date t)) w =
     (Inr (), traced [Console (Error ''Invalid parameters for updating picture database.'')] w)"
  by (simp add: updatePictureDatabase_def prog_defs console_defs traced_def getTime_def
      greater_def)

lemma updatePictureDatabase_InvalidDate:
  "updatePictureDatabase env (Some i) (Some n) (Some InvalidDate) w =
     (Inr (), traced [Console (Error ''Error updating picture database:'')] w)"
  by (simp add: updatePictureDatabase_def prog_defs console_defs traced_def getTime_def
      greater_def toISOString_def)

lemma updatePictureDatabase_write:
  "t \<le> Date_now env \<Longrightarrow>
   updatePictureDatabase env (Some i) (Some n) (Some (Date t)) w =
     (if write_refused env i n t w
      then (Inr (), traced [Request (write_request env i n t),
              Console (Error ''Error updating picture database:'')] w)
      else (Inr (), (traced [Request (write_request env i n t),
              Console (Log ''Picture database updated successfully.'')] w)
              \<lparr>collection := collection w @ [new_document env i n t]\<rparr>))"
  by (simp add: updatePictureDatabase_def prog_defs console_defs traced_def getTime_def
      greater_def toISOString_def createDocument_def send_def Let_def write_refused_def
      write_request_def new_payload_def new_document_def)

lemma deletePicture_absent:
  "falsy i \<or> falsy d \<Longrightarrow>
   deletePicture env i d w =
     (Inr (), traced [Console (Error ''Image ID is required to delete a picture.'')] w)"
  by (auto simp: deletePicture_def prog_defs console_defs traced_def falsy_def
      split: option.splits)

lemma deletePicture_present:
  "i \<noteq> [] \<Longrightarrow> d \<noteq> [] \<Longrightarrow>
   deletePicture env (Some i) (Some d) w =
     (if record_kept env d w
      then (Inr (), traced [Request (DeleteDocument d),
              Console (Error ''Error deleting picture:'')] w)
      else if blob_kept env i w
      then (Inr (), (traced [Request (DeleteDocument d), Request (DeleteFile i),
              Console (Error ''Error deleting picture:'')] w)
              \<lparr>collection := filter (\<lambda>x. d_id x \<noteq> d) (collection w)\<rparr>)
      else (Inr (), (traced [Request (DeleteDocument d), Request (DeleteFile i)] w)
              \<lparr>collection := filter (\<lambda>x. d_id x \<noteq> d) (collection w),
               bucket := filter (\<lambda>x. b_id x \<noteq> i) (bucket w)\<rparr>))"
  by (simp add: deletePicture_def prog_defs console_defs traced_def falsy_def
      deleteDocument_def deleteFile_def send_def Let_def record_kept_def blob_kept_def)

lemma traced_simps [simp]:
  "collection (traced es w) = collection w"
  "bucket (traced es w) = bucket w"
  "trace (traced es w) = trace w @ es"
  by (simp_all add: traced_def)

lemma updatePictureDatabase_resolves: "fst (updatePictureDatabase env i n c w) = Inr ()"
  by (simp add: updatePictureDatabase_def prog_defs console_defs toISOString_def
      createDocument_def send_def Let_def split: option.splits date.splits prod.splits sum.splits)

lemma uploadPicture_resolves: "\<exists>r. fst (uploadPicture env f w) = Inr r"
  by (simp add: uploadPicture_run)

subsection \<open>The upload control\<close>

lemma handleUpload_None:
  "image p = None \<Longrightarrow>
   handleUpload env p = (Inr (), logged [Console (Error ''No image selected for upload.'')] p)"
  by (simp add: handleUpload_def api_def console_defs logged_def traced_def)

lemma handleUpload_failed:
  "image p = Some f \<Longrightarrow> uploadPicture env f (outside p) = (Inr r, w) \<Longrightarrow> falsy r \<Longrightarrow>
   handleUpload env p =
     (Inr (), p\<lparr>outside := traced [Console (Error ''Failed to upload image.'')] w\<rparr>)"
  by (simp add: handleUpload_def api_def prog_defs console_defs traced_def)

lemma handleUpload_uploaded:
  assumes "image p = Some f" and "uploadPicture env f (outside p) = (Inr (Some i), w)"
    and "i \<noteq> []"
  shows "handleUpload env p =
     (Inr (), p\<lparr>totalImageNumber := totalImageNumber p + 1,
        outside := traced [Set SetTotalImageNumber_prev_plus_1,
            Console (Log ''Image uploaded and database updated successfully.'')]
          (snd (updatePictureDatabase env (Some i) (Some (name f))
                  (Some (Date (new_Date env))) w))\<rparr>)"
proof -
  obtain w' where
    "updatePictureDatabase env (Some i) (Some (name f)) (Some (Date (new_Date env))) w
       = (Inr (), w')"
    using updatePictureDatabase_resolves
      [of env "Some i" "Some (name f)" "Some (Date (new_Date env))" w]
    by (cases "updatePictureDatabase env (Some i) (Some (name f))
          (Some (Date (new_Date env))) w") auto
  with assms show ?thesis
    by (simp add: handleUpload_def api_def prog_defs console_defs traced_def falsy_def
        setTotalImageNumber_prev_plus_1_def called_def)
qed

lemma handleUpload_resolves: "fst (handleUpload env p) = Inr ()"
proof (cases "image p")
  case None
  then show ?thesis by (simp add: handleUpload_None)
next
  case (Some f)
  obtain r w where u: "uploadPicture env f (outside p) = (Inr r, w)"
    using uploadPicture_resolves [of env f "outside p"] by (cases "uploadPicture env f (outside p)") auto
  show ?thesis
  proof (cases "falsy r")
    case True
    then show ?thesis using Some u by (simp add: handleUpload_failed)
  next
    case False
    then obtain i where "r = Some i" "i \<noteq> []" by (auto simp: falsy_def split: option.splits)
    then show ?thesis using Some u by (simp add: handleUpload_uploaded)
  qed
qed

lemma upload_effect_run:
  assumes "toUpload p"
  shows "upload_effect env p =
     (Inr (), logged [Set (SetToUpload False), Set (SetImage None)]
        ((snd (handleUpload env p))\<lparr>toUpload := False, image := None\<rparr>))"
proof -
  obtain p' where "handleUpload env p = (Inr (), p')"
    using handleUpload_resolves [of env p] by (cases "handleUpload env p") auto
  with assms show ?thesis
    by (simp add: upload_effect_def prog_defs setToUpload_def setImage_def called_def
        logged_def traced_def)
qed

subsection \<open>The fetch transition\<close>

lemma logged_simps [simp]:
  "totalImageNumber (logged es p) = totalImageNumber p"
  "searchImage (logged es p) = searchImage p"
  "debouncedSearchTerm (logged es p) = debouncedSearchTerm p"
  "loading (logged es p) = loading p"
  "refreshFetch (logged es p) = refreshFetch p"
  "imageList (logged es p) = imageList p"
  "toUpload (logged es p) = toUpload p"
  "image (logged es p) = image p"
  "handler (logged es p) = handler p"
  "outside (logged es p) = traced es (outside p)"
  by (simp_all add: logged_def)

lemma getAllImages_run:
  "fetch q (traced [Set (SetLoading True)] (outside p)) = (r, w) \<Longrightarrow>
   getAllImages fetch q p =
     (Inr (), case r of
        Inl e \<Rightarrow> p\<lparr>loading := True, outside := traced [Console (Error ''Error fetching images:'')] w\<rparr>
      | Inr None \<Rightarrow> p\<lparr>loading := True, imageList := [],
          outside := traced [Console (Error ''No images found''), Set (SetImageList [])] w\<rparr>
      | Inr (Some fetched) \<Rightarrow>
          if fetched = []
          then p\<lparr>loading := True, imageList := [],
            outside := traced [Console (Error ''No images found''), Set (SetImageList [])] w\<rparr>
          else p\<lparr>loading := True, imageList := fetched,
            outside := traced [Set (SetImageList fetched)] w\<rparr>)"
  by (simp add: getAllImages_def prog_defs api_def setLoading_def setImageList_def called_def
      console_defs traced_def split: sum.splits option.splits)

lemma fetch_effect_run:
  "fetching fetch p = (r, w) \<Longrightarrow>
   fetch_effect fetch p =
     (Inr (), case r of
        Inl e \<Rightarrow> p\<lparr>loading := False,
          outside := traced [Console (Error ''Error fetching images:''), Set (SetLoading False)] w\<rparr>
      | Inr None \<Rightarrow> p\<lparr>loading := False, imageList := [],
          outside := traced [Console (Error ''No images found''), Set (SetImageList []),
            Set (SetLoading False)] w\<rparr>
      | Inr (Some fetched) \<Rightarrow>
          if fetched = []
          then p\<lparr>loading := False, imageList := [],
            outside := traced [Console (Error ''No images found''), Set (SetImageList []),
              Set (SetLoading False)] w\<rparr>
          else p\<lparr>loading := False, imageList := fetched,
            outside := traced [Set (SetImageList fetched), Set (SetLoading False)] w\<rparr>)"
  by (simp add: fetch_effect_def fetching_def getAllImages_run await_def setLoading_def called_def
      traced_def split: sum.splits option.splits)

subsection \<open>Keystrokes and the timeout\<close>

lemma fetch_effect_keeps:
  "handler (snd (fetch_effect fetch p)) = handler p"
  "searchImage (snd (fetch_effect fetch p)) = searchImage p"
  "debouncedSearchTerm (snd (fetch_effect fetch p)) = debouncedSearchTerm p"
  "totalImageNumber (snd (fetch_effect fetch p)) = totalImageNumber p"
proof -
  obtain r w where f: "fetching fetch p = (r, w)" by (cases "fetching fetch p") auto
  show "handler (snd (fetch_effect fetch p)) = handler p"
    "searchImage (snd (fetch_effect fetch p)) = searchImage p"
    "debouncedSearchTerm (snd (fetch_effect fetch p)) = debouncedSearchTerm p"
    "totalImageNumber (snd (fetch_effect fetch p)) = totalImageNumber p"
    by (simp_all add: fetch_effect_run [OF f] split: sum.splits option.splits)
qed

lemma fetch_effect_sent:
  "sent (trace (outside (snd (fetch_effect (fetchPictures env) p)))) =
     sent (trace (outside p)) @ [search_request (debouncedSearchTerm p)]"
proof -
  obtain r w where f: "fetching (fetchPictures env) p = (r, w)"
    by (cases "fetching (fetchPictures env) p") auto
  from f have "sent (trace w) = sent (trace (outside p)) @ [search_request (debouncedSearchTerm p)]"
    by (auto simp: fetching_def fetchPictures_run split: if_splits)
  then show ?thesis
    by (simp add: fetch_effect_run [OF f] split: sum.splits option.splits)
qed

lemma onChange_simps:
  "searchImage (onChange t v p) = v"
  "debouncedSearchTerm (onChange t v p) = debouncedSearchTerm p"
  "sent (trace (outside (onChange t v p))) = sent (trace (outside p))"
  "v \<noteq> searchImage p \<Longrightarrow> handler (onChange t v p) = Some (t + 1000, v)"
  "v = searchImage p \<Longrightarrow> handler (onChange t v p) = handler p"
  by (simp_all add: onChange_def setSearchImage_def called_def Let_def)

lemma elapse_at_rest: "at_rest t p \<Longrightarrow> elapse fetch t p = p"
  by (auto simp: at_rest_def elapse_def split: option.splits)

lemma burst:
  "ks \<noteq> [] \<Longrightarrow> rapid ks \<Longrightarrow> typing (searchImage p) ks \<Longrightarrow> at_rest (fst (hd ks)) p \<Longrightarrow>
   searchImage (keystrokes fetch ks p) = snd (last ks)
   \<and> handler (keystrokes fetch ks p) = Some (fst (last ks) + 1000, snd (last ks))
   \<and> debouncedSearchTerm (keystrokes fetch ks p) = debouncedSearchTerm p
   \<and> sent (trace (outside (keystrokes fetch ks p))) = sent (trace (outside p))"
proof (induction ks arbitrary: p)
  case Nil
  then show ?case by simp
next
  case (Cons k ks)
  obtain t v where k: "k = (t, v)" by (cases k)
  let ?p = "onChange t v p"
  from Cons.prems k have rest: "elapse fetch t p = p" and v: "v \<noteq> searchImage p"
    by (simp_all add: elapse_at_rest)
  show ?case
  proof (cases ks)
    case Nil
    with k rest v show ?thesis by (simp add: onChange_simps)
  next
    case (Cons k' ks')
    obtain t' v' where k': "k' = (t', v')" by (cases k')
    from Cons.prems k Cons k' v have "rapid ks" "typing (searchImage ?p) ks" "at_rest (fst (hd ks)) ?p"
      by (simp_all add: onChange_simps at_rest_def)
    with Cons.IH [of ?p] Cons have
      "searchImage (keystrokes fetch ks ?p) = snd (last ks)
       \<and> handler (keystrokes fetch ks ?p) = Some (fst (last ks) + 1000, snd (last ks))
       \<and> debouncedSearchTerm (keystrokes fetch ks ?p) = debouncedSearchTerm ?p
       \<and> sent (trace (outside (keystrokes fetch ks ?p))) = sent (trace (outside ?p))"
      by simp
    with k rest Cons show ?thesis by (simp add: onChange_simps)
  qed
qed

lemma timeout_fires_run:
  "handler p = Some (due, v) \<Longrightarrow>
   debouncedSearchTerm (timeout_fires (fetchPictures env) p) = v
   \<and> handler (timeout_fires (fetchPictures env) p) = None
   \<and> searchImage (timeout_fires (fetchPictures env) p) = searchImage p
   \<and> sent (trace (outside (timeout_fires (fetchPictures env) p))) =
       sent (trace (outside p)) @ (if v = debouncedSearchTerm p then [] else [search_request v])"
  by (simp add: timeout_fires_def setDebouncedSearchTerm_def called_def Let_def
      fetch_effect_keeps fetch_effect_sent)

lemma silent_fetchPictures: "silent (fetchPictures env)"
  by (simp add: silent_def fetchPictures_run)

lemma silent_broken_fetch: "silent broken_fetch"
  by (simp add: silent_def broken_fetch_def throw_def)

subsection \<open>The upload control, from the selection to the record\<close>

lemma uploadPicture_stored:
  "\<not> name_taken env f w \<Longrightarrow> \<not> rejects env (name_check f) \<Longrightarrow>
   \<not> rejects env (CreateFile ''unique()'' f) \<Longrightarrow>
   unique_file_id env \<notin> b_id ` set (bucket w) \<Longrightarrow>
   uploadPicture env f w =
     (Inr (Some (unique_file_id env)),
      (traced [Request (name_check f), Request (CreateFile ''unique()'' f)] w)
        \<lparr>bucket := bucket w @ [stored env f]\<rparr>)"
  by (simp add: uploadPicture_run)

lemma updatePictureDatabase_kept:
  "Date_now env < t \<or> write_refused env i n t w \<Longrightarrow>
   collection (snd (updatePictureDatabase env (Some i) (Some n) (Some (Date t)) w)) =
     collection w
   \<and> bucket (snd (updatePictureDatabase env (Some i) (Some n) (Some (Date t)) w)) = bucket w"
  by (cases "Date_now env < t")
    (simp_all add: updatePictureDatabase_future updatePictureDatabase_write)

lemma upload_effect_taken:
  assumes taken: "name_taken env f (outside p)" and f: "image p = Some f"
    and armed: "toUpload p"
  shows "totalImageNumber (snd (upload_effect env p)) = totalImageNumber p
    \<and> bucket (outside (snd (upload_effect env p))) = bucket (outside p)
    \<and> collection (outside (snd (upload_effect env p))) = collection (outside p)
    \<and> sent (trace (outside (snd (upload_effect env p)))) =
        sent (trace (outside p)) @ [name_check f]"
proof -
  have "\<exists>w. uploadPicture env f (outside p) = (Inr None, w)
      \<and> bucket w = bucket (outside p) \<and> collection w = collection (outside p)
      \<and> sent (trace w) = sent (trace (outside p)) @ [name_check f]"
    using taken by (simp add: uploadPicture_run)
  then obtain w where u: "uploadPicture env f (outside p) = (Inr None, w)"
    and w: "bucket w = bucket (outside p)" "collection w = collection (outside p)"
      "sent (trace w) = sent (trace (outside p)) @ [name_check f]"
    by blast
  have "handleUpload env p =
      (Inr (), p\<lparr>outside := traced [Console (Error ''Failed to upload image.'')] w\<rparr>)"
    using handleUpload_failed [OF f u] by (simp add: falsy_def)
  with w show ?thesis by (simp add: upload_effect_run [OF armed])
qed

lemma upload_effect_lost:
  assumes f: "image p = Some f" and armed: "toUpload p"
    and free: "\<not> name_taken env f (outside p)" "\<not> rejects env (name_check f)"
      "\<not> rejects env (CreateFile ''unique()'' f)"
      "unique_file_id env \<notin> b_id ` set (bucket (outside p))"
    and id: "unique_file_id env \<noteq> []"
    and fails: "Date_now env < new_Date env
      \<or> write_refused env (unique_file_id env) (name f) (new_Date env) (outside p)"
  shows "totalImageNumber (snd (upload_effect env p)) = totalImageNumber p + 1
    \<and> collection (outside (snd (upload_effect env p))) = collection (outside p)"
proof -
  let ?w = "(traced [Request (name_check f), Request (CreateFile ''unique()'' f)] (outside p))
      \<lparr>bucket := bucket (outside p) @ [stored env f]\<rparr>"
  have u: "uploadPicture env f (outside p) = (Inr (Some (unique_file_id env)), ?w)"
    using free by (rule uploadPicture_stored)
  have "Date_now env < new_Date env
      \<or> write_refused env (unique_file_id env) (name f) (new_Date env) ?w"
    using fails by (simp add: write_refused_def)
  from updatePictureDatabase_kept [OF this] show ?thesis
    by (simp add: upload_effect_run [OF armed] handleUpload_uploaded [OF f u id])
qed

lemma handleFileChange_selects:
  "handleFileChange (Some (f # fs)) p =
     (Inr (), logged [Set (SetImage (Some f)), Set (SetToUpload True)]
        (p\<lparr>image := Some f, toUpload := True\<rparr>))"
  by (simp add: handleFileChange_def prog_defs setImage_def setToUpload_def called_def
      logged_def traced_def)

lemma handleFileChange_nothing:
  "files = None \<or> files = Some [] \<Longrightarrow> handleFileChange files p = (Inr (), p)"
  by (auto simp: handleFileChange_def ret_def)

lemma upload_effect_requests:
  assumes f: "image p = Some f" and armed: "toUpload p"
  shows "\<exists>xs. sent (trace (outside (snd (upload_effect env p)))) =
        sent (trace (outside p)) @ xs
      \<and> prefix xs [name_check f, CreateFile ''unique()'' f,
           write_request env (unique_file_id env) (name f) (new_Date env)]"
proof -
  let ?p = "snd (upload_effect env p)"
  let ?uid = "unique_file_id env"
  let ?three = "[name_check f, CreateFile ''unique()'' f,
    write_request env ?uid (name f) (new_Date env)]"
  show ?thesis
  proof (cases "rejects env (name_check f) \<or> name_taken env f (outside p)")
    case True
    then have "\<exists>w. uploadPicture env f (outside p) = (Inr None, w)
        \<and> sent (trace w) = sent (trace (outside p)) @ [name_check f]"
      by (auto simp: uploadPicture_run)
    then obtain w where u: "uploadPicture env f (outside p) = (Inr None, w)"
      and w: "sent (trace w) = sent (trace (outside p)) @ [name_check f]" by blast
    have h: "handleUpload env p =
        (Inr (), p\<lparr>outside := traced [Console (Error ''Failed to upload image.'')] w\<rparr>)"
      using handleUpload_failed [OF f u] by (simp add: falsy_def)
    have "sent (trace (outside ?p)) = sent (trace (outside p)) @ [name_check f]"
      using w by (simp add: upload_effect_run [OF armed] h)
    moreover have "prefix [name_check f] ?three" by simp
    ultimately have "\<exists>xs. sent (trace (outside ?p)) = sent (trace (outside p)) @ xs
        \<and> prefix xs ?three" by blast
    then show ?thesis by simp
  next
    case accepted: False
    show ?thesis
    proof (cases "rejects env (CreateFile ''unique()'' f)
        \<or> ?uid \<in> b_id ` set (bucket (outside p))")
      case True
      with accepted have "\<exists>w. uploadPicture env f (outside p) = (Inr None, w)
          \<and> sent (trace w) = sent (trace (outside p))
              @ [name_check f, CreateFile ''unique()'' f]"
        by (auto simp: uploadPicture_run)
      then obtain w where u: "uploadPicture env f (outside p) = (Inr None, w)"
        and w: "sent (trace w) = sent (trace (outside p))
          @ [name_check f, CreateFile ''unique()'' f]" by blast
      have h: "handleUpload env p =
          (Inr (), p\<lparr>outside := traced [Console (Error ''Failed to upload image.'')] w\<rparr>)"
        using handleUpload_failed [OF f u] by (simp add: falsy_def)
      have "sent (trace (outside ?p)) =
          sent (trace (outside p)) @ [name_check f, CreateFile ''unique()'' f]"
        using w by (simp add: upload_effect_run [OF armed] h)
      moreover have "prefix [name_check f, CreateFile ''unique()'' f] ?three" by simp
      ultimately have "\<exists>xs. sent (trace (outside ?p)) = sent (trace (outside p)) @ xs
          \<and> prefix xs ?three" by blast
      then show ?thesis by simp
    next
      case False
      let ?w = "(traced [Request (name_check f), Request (CreateFile ''unique()'' f)]
          (outside p))\<lparr>bucket := bucket (outside p) @ [stored env f]\<rparr>"
      from accepted False have u: "uploadPicture env f (outside p) = (Inr (Some ?uid), ?w)"
        by (simp add: uploadPicture_stored)
      show ?thesis
      proof (cases "?uid = []")
        case True
        have h: "handleUpload env p =
            (Inr (), p\<lparr>outside := traced [Console (Error ''Failed to upload image.'')] ?w\<rparr>)"
          using handleUpload_failed [OF f u] True by (simp add: falsy_def)
        have "sent (trace (outside ?p)) =
            sent (trace (outside p)) @ [name_check f, CreateFile ''unique()'' f]"
          by (simp add: upload_effect_run [OF armed] h)
        moreover have "prefix [name_check f, CreateFile ''unique()'' f] ?three" by simp
        ultimately have "\<exists>xs. sent (trace (outside ?p)) = sent (trace (outside p)) @ xs
            \<and> prefix xs ?three" by blast
        then show ?thesis by simp
      next
        case id: False
        note h = handleUpload_uploaded [OF f u id]
        show ?thesis
        proof (cases "Date_now env < new_Date env")
          case True
          have "sent (trace (outside ?p)) =
              sent (trace (outside p)) @ [name_check f, CreateFile ''unique()'' f]"
            by (simp add: upload_effect_run [OF armed] h updatePictureDatabase_future [OF True])
          moreover have "prefix [name_check f, CreateFile ''unique()'' f] ?three" by simp
          ultimately have "\<exists>xs. sent (trace (outside ?p)) = sent (trace (outside p)) @ xs
              \<and> prefix xs ?three" by blast
          then show ?thesis by simp
        next
          case False
          then have le: "new_Date env \<le> Date_now env" by simp
          have "sent (trace (outside ?p)) = sent (trace (outside p)) @ ?three"
            by (simp add: upload_effect_run [OF armed] h updatePictureDatabase_write [OF le])
          then have "\<exists>xs. sent (trace (outside ?p)) = sent (trace (outside p)) @ xs
              \<and> prefix xs ?three" by blast
          then show ?thesis by simp
        qed
      qed
    qed
  qed
qed

lemma uploadPicture_collection:
  "collection (snd (uploadPicture env f w)) = collection w"
  by (simp add: uploadPicture_run)

lemma upload_effect_not_uploaded:
  assumes f: "image p = Some f" and armed: "toUpload p"
    and r: "fst (uploadPicture env f (outside p)) = Inr r" and none: "falsy r"
  shows "totalImageNumber (snd (upload_effect env p)) = totalImageNumber p
    \<and> collection (outside (snd (upload_effect env p))) = collection (outside p)"
proof -
  obtain w where u: "uploadPicture env f (outside p) = (Inr r, w)"
    using r by (cases "uploadPicture env f (outside p)") auto
  have "collection w = collection (outside p)"
    using uploadPicture_collection [of env f "outside p"] u by simp
  then show ?thesis
    by (simp add: upload_effect_run [OF armed] handleUpload_failed [OF f u none])
qed

lemma upload_effect_done:
  assumes armed: "toUpload p" and f: "image p = Some f"
    and free: "\<not> name_taken env f (outside p)"
      "\<not> rejects env (name_check f)" "\<not> rejects env (CreateFile ''unique()'' f)"
      "unique_file_id env \<notin> b_id ` set (bucket (outside p))"
    and id: "unique_file_id env \<noteq> []" and le: "new_Date env \<le> Date_now env"
    and ok: "\<not> write_refused env (unique_file_id env) (name f) (new_Date env) (outside p)"
  shows "trace (outside (snd (upload_effect env p))) =
        trace (outside p) @
          [Request (name_check f), Request (CreateFile ''unique()'' f),
           Request (write_request env (unique_file_id env) (name f) (new_Date env)),
           Console (Log ''Picture database updated successfully.''),
           Set SetTotalImageNumber_prev_plus_1,
           Console (Log ''Image uploaded and database updated successfully.''),
           Set (SetToUpload False), Set (SetImage None)]
      \<and> totalImageNumber (snd (upload_effect env p)) = totalImageNumber p + 1
      \<and> bucket (outside (snd (upload_effect env p))) = bucket (outside p) @ [stored env f]
      \<and> collection (outside (snd (upload_effect env p))) =
          collection (outside p)
            @ [new_document env (unique_file_id env) (name f) (new_Date env)]"
proof -
  let ?uid = "unique_file_id env"
  let ?w = "(traced [Request (name_check f), Request (CreateFile ''unique()'' f)]
      (outside p))\<lparr>bucket := bucket (outside p) @ [stored env f]\<rparr>"
  have u: "uploadPicture env f (outside p) = (Inr (Some ?uid), ?w)"
    using free by (rule uploadPicture_stored)
  have "\<not> write_refused env ?uid (name f) (new_Date env) ?w"
    using ok by (simp add: write_refused_def)
  then show ?thesis
    by (simp add: upload_effect_run [OF armed] handleUpload_uploaded [OF f u id]
        updatePictureDatabase_write [OF le])
qed

subsection \<open>The count, and the scenario of the specification\<close>

lemma getTotalPicturesCount_run:
  "getTotalPicturesCount env w =
     (if rejects env (ListDocuments [])
      then (Inr 0, traced [Request (ListDocuments []),
              Console (Error ''Error fetching total pictures count:'')] w)
      else (Inr (length (collection w)), traced [Request (ListDocuments [])] w))"
  by (simp add: getTotalPicturesCount_def prog_defs listDocuments_def send_def console_defs
      Let_def select_documents_all traced_def)

text \<open>
  Empty store, count 0; upload \<open>cat.png\<close>; count 1, the search for \<open>cat\<close> returns the
  one record, named \<open>cat.png\<close>, the search for \<open>dog\<close> returns the empty sequence; delete
  the record; count 0 and the bucket is empty.
\<close>

lemma scenario:
  "fst (getTotalPicturesCount online empty_store) = Inr 0
   \<and> collection (outside (snd (upload_effect online (selected cat_png empty_store)))) =
       [new_document online ''f2'' ''cat.png'' 1000]
   \<and> fst (getTotalPicturesCount online
        (outside (snd (upload_effect online (selected cat_png empty_store))))) = Inr 1
   \<and> fst (fetchPictures online ''cat''
        (outside (snd (upload_effect online (selected cat_png empty_store))))) =
       Inr (Some [picture (new_document online ''f2'' ''cat.png'' 1000)])
   \<and> imageName (picture (new_document online ''f2'' ''cat.png'' 1000)) = ''cat.png''
   \<and> fst (fetchPictures online ''dog''
        (outside (snd (upload_effect online (selected cat_png empty_store))))) =
       Inr (Some [])
   \<and> fst (getTotalPicturesCount online
        (snd (deletePicture online (Some ''f2'') (Some ''d2'')
           (outside (snd (upload_effect online (selected cat_png empty_store))))))) = Inr 0
   \<and> bucket (snd (deletePicture online (Some ''f2'') (Some ''d2'')
        (outside (snd (upload_effect online (selected cat_png empty_store)))))) = []"
proof -
  let ?w = "outside (snd (upload_effect online (selected cat_png empty_store)))"
  have "collection ?w = [new_document online ''f2'' ''cat.png'' 1000]
      \<and> bucket ?w = [stored online cat_png]"
    using upload_effect_done [of "selected cat_png empty_store" cat_png online]
    by (simp add: selected_def fresh_page_def empty_store_def online_def cat_png_def
        name_taken_def name_check_def write_refused_def write_request_def ID_unique_def)
  then show ?thesis
    by (simp add: getTotalPicturesCount_run fetchPictures_run deletePicture_present
        record_kept_def blob_kept_def search_request_def startsWith_def picture_def
        new_document_def stored_def ID_unique_def)
      (simp add: online_def empty_store_def)
qed

section \<open>Search\<close>

text \<open>
  C1.  For every search term \<open>t\<close>, when the service answers, \<open>fetchPictures\<close> resolves
  with one Picture Record for each stored document whose \<open>imageName\<close> starts with \<open>t\<close>
  (as the service compares characters), and for no other, in stored order; the record
  carries the document's \<open>imageName\<close>, \<open>createdAt\<close>, \<open>imageId\<close> and \<open>imageUrl\<close>, and its
  \<open>$id\<close> as \<open>documentId\<close>, so the \<open>imageName\<close> of every record returned starts with
  \<open>t\<close>.  For the empty term these are the records of all the documents.  When the
  service rejects the request it resolves with \<^verbatim>\<open>undefined\<close>, which is not the empty
  sequence.
\<close>

theorem fetchPictures_search:
  "(\<not> rejects env (search_request t) \<longrightarrow>
      fst (fetchPictures env t w) =
        Inr (Some (map (\<lambda>d. \<lparr>imageName = d_imageName d, createdAt = d_createdAt d,
                             imageId = d_imageId d, imageUrl = d_imageUrl d,
                             documentId = d_id d\<rparr>)
          (filter (\<lambda>d. startsWith env (d_imageName d) t) (collection w))))
      \<and> (\<forall>found. fst (fetchPictures env t w) = Inr (Some found) \<longrightarrow>
            (\<forall>r \<in> set found. startsWith env (imageName r) t)
            \<and> map imageName found =
                filter (\<lambda>n. startsWith env n t) (map d_imageName (collection w))))
   \<and> (\<not> rejects env (search_request []) \<longrightarrow>
      fst (fetchPictures env [] w) =
        Inr (Some (map (\<lambda>d. \<lparr>imageName = d_imageName d, createdAt = d_createdAt d,
                             imageId = d_imageId d, imageUrl = d_imageUrl d,
                             documentId = d_id d\<rparr>) (collection w)))
      \<and> (\<forall>found. fst (fetchPictures env [] w) = Inr (Some found) \<longrightarrow>
            length found = length (collection w)))
   \<and> (rejects env (search_request t) \<longrightarrow> fst (fetchPictures env t w) = Inr None)
   \<and> (Inr None :: exn + Image list option) \<noteq> Inr (Some [])"
proof -
  have run: "fst (fetchPictures env q w) =
      (if rejects env (search_request q) then Inr None
       else Inr (Some (map (\<lambda>d. \<lparr>imageName = d_imageName d, createdAt = d_createdAt d,
                             imageId = d_imageId d, imageUrl = d_imageUrl d,
                             documentId = d_id d\<rparr>)
         (filter (\<lambda>d. startsWith env (d_imageName d) q) (collection w)))))" for q
    by (simp add: fetchPictures_def search_request_def prog_defs listDocuments_def send_def
        console_defs Let_def select_documents_startsWith select_documents_all
        startsWith_empty picture_def)
  have names: "map imageName
      (map (\<lambda>d. \<lparr>imageName = d_imageName d, createdAt = d_createdAt d,
                 imageId = d_imageId d, imageUrl = d_imageUrl d, documentId = d_id d\<rparr>)
        (filter (\<lambda>d. startsWith env (d_imageName d) t) ds)) =
      filter (\<lambda>n. startsWith env n t) (map d_imageName ds)"
    for ds :: "document list"
    by (induction ds) simp_all
  show ?thesis
    using names [of "collection w"]
    by (auto simp: run startsWith_empty)
qed

theorem fetchPictures_search_witness:
  "\<not> rejects online (search_request ''cat'')
   \<and> fst (fetchPictures online ''cat'' one_cat) =
       Inr (Some [\<lparr>imageName = ''cat.png'', createdAt = ISO 500, imageId = ''f1'',
                   imageUrl = ''view/f1'', documentId = ''d1''\<rparr>])
   \<and> \<not> rejects online (search_request ''dog'')
   \<and> fst (fetchPictures online ''dog'' one_cat) = Inr (Some [])
   \<and> \<not> rejects online (search_request [])
   \<and> fst (fetchPictures online [] one_cat) =
       Inr (Some [\<lparr>imageName = ''cat.png'', createdAt = ISO 500, imageId = ''f1'',
                   imageUrl = ''view/f1'', documentId = ''d1''\<rparr>])
   \<and> rejects offline (search_request ''cat'')
   \<and> fst (fetchPictures offline ''cat'' one_cat) = Inr None"
  using fetchPictures_search [of online "''cat''" one_cat]
    fetchPictures_search [of online "''dog''" one_cat]
    fetchPictures_search [of offline "''cat''" one_cat]
  by (simp add: online_def offline_def one_cat_def cat_document_def search_request_def
      startsWith_def)

section \<open>Upload\<close>

text \<open>
  C2.  For every file whose name matches a blob of the bucket, \<open>uploadPicture\<close> resolves
  with \<^verbatim>\<open>null\<close> and creates nothing: the bucket and the collection are as before, and
  the upload control that runs it leaves the displayed total, the bucket and the
  collection unchanged.  For every file with a unique name it stores the blob under the
  identifier the service generates, which no stored blob has, and resolves with that
  identifier; or, on failure (a request is rejected, or the identifier is taken), it
  resolves with \<^verbatim>\<open>null\<close> and stores nothing.
\<close>

theorem uploadPicture_duplicate_or_unique:
  "(name_taken env f w \<longrightarrow>
      fst (uploadPicture env f w) = Inr None
      \<and> bucket (snd (uploadPicture env f w)) = bucket w
      \<and> collection (snd (uploadPicture env f w)) = collection w)
   \<and> (name_taken env f (outside p) \<and> image p = Some f \<and> toUpload p \<longrightarrow>
      totalImageNumber (snd (upload_effect env p)) = totalImageNumber p
      \<and> bucket (outside (snd (upload_effect env p))) = bucket (outside p)
      \<and> collection (outside (snd (upload_effect env p))) = collection (outside p))
   \<and> (\<not> name_taken env f w \<longrightarrow>
      (if rejects env (name_check f) \<or> rejects env (CreateFile ''unique()'' f)
          \<or> unique_file_id env \<in> b_id ` set (bucket w)
       then fst (uploadPicture env f w) = Inr None
         \<and> bucket (snd (uploadPicture env f w)) = bucket w
       else fst (uploadPicture env f w) = Inr (Some (unique_file_id env))
         \<and> bucket (snd (uploadPicture env f w)) = bucket w @ [stored env f]
         \<and> b_id (stored env f) = unique_file_id env
         \<and> unique_file_id env \<notin> b_id ` set (bucket w)))"
  using upload_effect_taken [of env f p]
  by (simp add: uploadPicture_run stored_def)

theorem uploadPicture_duplicate_or_unique_witness:
  "name_taken online cat_png one_cat
   \<and> fst (uploadPicture online cat_png one_cat) = Inr None
   \<and> bucket (snd (uploadPicture online cat_png one_cat)) = bucket one_cat
   \<and> totalImageNumber (snd (upload_effect online (selected cat_png one_cat))) = 0
   \<and> \<not> name_taken online dog_png one_cat
   \<and> fst (uploadPicture online dog_png one_cat) = Inr (Some ''f2'')
   \<and> bucket (snd (uploadPicture online dog_png one_cat)) =
       bucket one_cat @ [\<lparr>b_id = ''f2'', b_name = ''dog.png'', b_bytes = ''woof''\<rparr>]
   \<and> fst (uploadPicture offline dog_png one_cat) = Inr None"
  using uploadPicture_duplicate_or_unique [of online cat_png one_cat "selected cat_png one_cat"]
    uploadPicture_duplicate_or_unique [of online dog_png one_cat "selected dog_png one_cat"]
    uploadPicture_duplicate_or_unique [of offline dog_png one_cat "selected dog_png one_cat"]
  by (simp add: name_taken_def same_text_def online_def offline_def one_cat_def cat_png_def
      dog_png_def selected_def fresh_page_def stored_def name_check_def)

section \<open>Persist\<close>

text \<open>
  C3, as the code has it.  \<open>updatePictureDatabase\<close> returns nothing and throws
  nothing.  When \<open>imageId\<close>, \<open>imageName\<close> or \<open>createdAt\<close> is \<^verbatim>\<open>null\<close> or \<^verbatim>\<open>undefined\<close>,
  or \<open>createdAt\<close> is strictly greater than the current time, it sends no request and
  leaves the collection and the bucket as they are.  Otherwise, for a valid date, it
  sends exactly one request, the creation of a document with a generated \<open>documentId\<close>
  and the \<open>imageUrl\<close> resolved from \<open>imageId\<close>; exactly that one record is added when the
  service accepts the request, and none when the service refuses it.
\<close>

theorem updatePictureDatabase_persist:
  "fst (updatePictureDatabase env i n c w) = Inr ()
   \<and> (i = None \<or> n = None \<or> c = None \<or> (\<exists>t. c = Some (Date t) \<and> Date_now env < t) \<longrightarrow>
      sent (trace (snd (updatePictureDatabase env i n c w))) = sent (trace w)
      \<and> collection (snd (updatePictureDatabase env i n c w)) = collection w
      \<and> bucket (snd (updatePictureDatabase env i n c w)) = bucket w)
   \<and> (t \<le> Date_now env \<longrightarrow>
      sent (trace (snd (updatePictureDatabase env (Some a) (Some b) (Some (Date t)) w))) =
        sent (trace w) @ [write_request env a b t]
      \<and> collection (snd (updatePictureDatabase env (Some a) (Some b) (Some (Date t)) w)) =
        (if write_refused env a b t w then collection w
         else collection w @ [new_document env a b t])
      \<and> bucket (snd (updatePictureDatabase env (Some a) (Some b) (Some (Date t)) w)) =
        bucket w
      \<and> d_id (new_document env a b t) = ID_unique env
      \<and> d_imageId (new_document env a b t) = a
      \<and> d_imageName (new_document env a b t) = b
      \<and> d_imageUrl (new_document env a b t) = getFileView env a)"
proof -
  have "sent (trace (snd (updatePictureDatabase env i n c w))) = sent (trace w)
      \<and> collection (snd (updatePictureDatabase env i n c w)) = collection w
      \<and> bucket (snd (updatePictureDatabase env i n c w)) = bucket w"
    if "i = None \<or> n = None \<or> c = None \<or> (\<exists>t. c = Some (Date t) \<and> Date_now env < t)"
  proof (cases "i = None \<or> n = None \<or> c = None")
    case True
    then show ?thesis by (simp add: updatePictureDatabase_absent)
  next
    case False
    with that obtain a b t where "i = Some a" "n = Some b" "c = Some (Date t)"
      "Date_now env < t" by auto
    then show ?thesis by (simp add: updatePictureDatabase_future)
  qed
  then show ?thesis
    by (simp add: updatePictureDatabase_resolves updatePictureDatabase_write
        new_document_def)
qed

theorem updatePictureDatabase_persist_witness:
  "(1000 :: int) \<le> Date_now online
   \<and> collection (snd (updatePictureDatabase online (Some ''f2'') (Some ''dog.png'')
        (Some (Date 1000)) one_cat)) =
       [cat_document, \<lparr>d_id = ''d2'', d_imageId = ''f2'', d_imageName = ''dog.png'',
          d_createdAt = ISO 1000, d_imageUrl = ''view/f2''\<rparr>]
   \<and> Date_now online < 2000
   \<and> collection (snd (updatePictureDatabase online (Some ''f2'') (Some ''dog.png'')
        (Some (Date 2000)) one_cat)) = [cat_document]
   \<and> collection (snd (updatePictureDatabase online None (Some ''dog.png'')
        (Some (Date 1000)) one_cat)) = [cat_document]"
  using updatePictureDatabase_persist
      [of online "Some ''f2''" "Some ''dog.png''" "Some (Date 2000)" one_cat 1000
        "''f2''" "''dog.png''"]
    updatePictureDatabase_persist
      [of online None "Some ''dog.png''" "Some (Date 1000)" one_cat 1000 "''f2''" "''dog.png''"]
  by (simp add: online_def one_cat_def cat_document_def write_refused_def new_document_def
      ID_unique_def getFileView_def write_request_def)

text \<open>
  The claim as stated fails: with the three arguments present and \<open>createdAt\<close> not after
  the current time, no record is written when the service refuses the request, nor
  when \<open>createdAt\<close> is the Invalid Date, in which case no request is sent either.
\<close>

theorem updatePictureDatabase_persist_counterexample:
  "\<not> greater (getTime (Date 1000)) (Date_now no_writes)
   \<and> updatePictureDatabase no_writes (Some ''f1'') (Some ''cat.png'') (Some (Date 1000))
        empty_store =
       (Inr (), \<lparr>collection = [], bucket = [],
          trace = [Request (write_request no_writes ''f1'' ''cat.png'' 1000),
                   Console (Error ''Error updating picture database:'')]\<rparr>)
   \<and> \<not> greater (getTime InvalidDate) (Date_now online)
   \<and> updatePictureDatabase online (Some ''f1'') (Some ''cat.png'') (Some InvalidDate)
        empty_store =
       (Inr (), \<lparr>collection = [], bucket = [],
          trace = [Console (Error ''Error updating picture database:'')]\<rparr>)"
  by (simp add: updatePictureDatabase_write updatePictureDatabase_InvalidDate no_writes_def
      online_def empty_store_def write_refused_def write_request_def traced_def getTime_def
      greater_def)

section \<open>The fetch transition\<close>

text \<open>
  C4.  For every fetch that calls no state setter itself, the fetch transition of the
  page resolves and calls the setters in this order: \<open>setLoading(true)\<close> first; then
  \<open>setImageList([])\<close> when the fetch resolved with \<^verbatim>\<open>undefined\<close> or with the empty
  sequence, \<open>setImageList\<close> of the fetched sequence when it resolved with a non-empty
  one, and nothing when the fetch threw; \<open>setLoading(false)\<close> last.  So \<open>loading\<close> is
  false at the end on every path, the one where the fetch throws included, where the
  list shown stays as it was.
\<close>

theorem fetch_transition:
  assumes "silent fetch"
  shows "fst (fetch_effect fetch p) = Inr ()
    \<and> loading (snd (fetch_effect fetch p)) = False
    \<and> set_calls (trace (outside (snd (fetch_effect fetch p)))) =
        set_calls (trace (outside p)) @ [SetLoading True] @ shown (fst (fetching fetch p))
          @ [SetLoading False]
    \<and> imageList (snd (fetch_effect fetch p)) =
        (case fst (fetching fetch p) of Inl e \<Rightarrow> imageList p | Inr None \<Rightarrow> []
         | Inr (Some fetched) \<Rightarrow> fetched)"
proof -
  obtain r w where f: "fetching fetch p = (r, w)" by (cases "fetching fetch p") auto
  have "set_calls (trace w) = set_calls (trace (outside p)) @ [SetLoading True]"
    using assms f [unfolded fetching_def]
    by (auto simp: silent_def dest!: spec [of _ "debouncedSearchTerm p"]
        spec [of _ "traced [Set (SetLoading True)] (outside p)"])
  then show ?thesis
    by (simp add: fetch_effect_run [OF f] f shown_def split: sum.splits option.splits)
qed

theorem fetch_transition_witness:
  "silent (fetchPictures online)
   \<and> loading (snd (fetch_effect (fetchPictures online) (fresh_page one_cat))) = False
   \<and> imageList (snd (fetch_effect (fetchPictures online) (fresh_page one_cat))) =
       [picture cat_document]
   \<and> set_calls (trace (outside (snd (fetch_effect (fetchPictures online)
        (fresh_page one_cat))))) =
       [SetLoading True, SetImageList [picture cat_document], SetLoading False]
   \<and> set_calls (trace (outside (snd (fetch_effect (fetchPictures offline)
        (fresh_page one_cat))))) =
       [SetLoading True, SetImageList [], SetLoading False]
   \<and> silent broken_fetch
   \<and> fst (fetch_effect broken_fetch ((fresh_page one_cat)\<lparr>loading := True\<rparr>)) = Inr ()
   \<and> loading (snd (fetch_effect broken_fetch ((fresh_page one_cat)\<lparr>loading := True\<rparr>))) =
       False
   \<and> set_calls (trace (outside (snd (fetch_effect broken_fetch
        ((fresh_page one_cat)\<lparr>loading := True\<rparr>))))) = [SetLoading True, SetLoading False]"
  using fetch_transition [OF silent_fetchPictures, of online "fresh_page one_cat"]
    fetch_transition [OF silent_fetchPictures, of offline "fresh_page one_cat"]
    fetch_transition [OF silent_broken_fetch, of "(fresh_page one_cat)\<lparr>loading := True\<rparr>"]
  by (simp add: silent_fetchPictures silent_broken_fetch fetching_def fetchPictures_run
      broken_fetch_def throw_def shown_def fresh_page_def one_cat_def online_def offline_def
      cat_document_def search_request_def startsWith_def)

section \<open>Remove\<close>

text \<open>
  C5.  \<open>deletePicture\<close> never throws.  When \<open>imageId\<close> or \<open>documentId\<close> is missing
  (\<^verbatim>\<open>null\<close>, \<^verbatim>\<open>undefined\<close> or empty) it sends no request and deletes nothing.  When both
  are present it first asks for the deletion of the record and only then for the
  deletion of the blob; when both succeed the record and the blob are gone; when the
  record is deleted and the deletion of the blob fails, the record stays deleted and
  the blob stays in the bucket, and the error is written to the console; when the
  deletion of the record fails the error is written to the console too.
\<close>

theorem deletePicture_remove:
  "fst (deletePicture env x y w) = Inr ()
   \<and> (falsy x \<or> falsy y \<longrightarrow>
      sent (trace (snd (deletePicture env x y w))) = sent (trace w)
      \<and> collection (snd (deletePicture env x y w)) = collection w
      \<and> bucket (snd (deletePicture env x y w)) = bucket w)
   \<and> (i \<noteq> [] \<and> d \<noteq> [] \<and> \<not> record_kept env d w \<and> \<not> blob_kept env i w \<longrightarrow>
      sent (trace (snd (deletePicture env (Some i) (Some d) w))) =
        sent (trace w) @ [DeleteDocument d, DeleteFile i]
      \<and> collection (snd (deletePicture env (Some i) (Some d) w)) =
        filter (\<lambda>x. d_id x \<noteq> d) (collection w)
      \<and> bucket (snd (deletePicture env (Some i) (Some d) w)) =
        filter (\<lambda>x. b_id x \<noteq> i) (bucket w)
      \<and> errors (trace (snd (deletePicture env (Some i) (Some d) w))) = errors (trace w))
   \<and> (i \<noteq> [] \<and> d \<noteq> [] \<and> \<not> record_kept env d w \<and> blob_kept env i w \<longrightarrow>
      sent (trace (snd (deletePicture env (Some i) (Some d) w))) =
        sent (trace w) @ [DeleteDocument d, DeleteFile i]
      \<and> collection (snd (deletePicture env (Some i) (Some d) w)) =
        filter (\<lambda>x. d_id x \<noteq> d) (collection w)
      \<and> bucket (snd (deletePicture env (Some i) (Some d) w)) = bucket w
      \<and> errors (trace (snd (deletePicture env (Some i) (Some d) w))) =
        errors (trace w) @ [''Error deleting picture:''])
   \<and> (i \<noteq> [] \<and> d \<noteq> [] \<and> record_kept env d w \<longrightarrow>
      sent (trace (snd (deletePicture env (Some i) (Some d) w))) =
        sent (trace w) @ [DeleteDocument d]
      \<and> collection (snd (deletePicture env (Some i) (Some d) w)) = collection w
      \<and> bucket (snd (deletePicture env (Some i) (Some d) w)) = bucket w
      \<and> errors (trace (snd (deletePicture env (Some i) (Some d) w))) =
        errors (trace w) @ [''Error deleting picture:''])"
proof -
  have "fst (deletePicture env x y w) = Inr ()"
  proof (cases "falsy x \<or> falsy y")
    case True
    then show ?thesis by (simp add: deletePicture_absent)
  next
    case False
    then obtain i d where "x = Some i" "y = Some d" "i \<noteq> []" "d \<noteq> []"
      by (auto simp: falsy_def split: option.splits)
    then show ?thesis by (simp add: deletePicture_present)
  qed
  then show ?thesis
    by (simp add: deletePicture_absent deletePicture_present)
qed

theorem deletePicture_remove_witness:
  "\<not> record_kept online ''d1'' one_cat \<and> \<not> blob_kept online ''f1'' one_cat
   \<and> collection (snd (deletePicture online (Some ''f1'') (Some ''d1'') one_cat)) = []
   \<and> bucket (snd (deletePicture online (Some ''f1'') (Some ''d1'') one_cat)) = []
   \<and> \<not> record_kept no_blob_delete ''d1'' one_cat \<and> blob_kept no_blob_delete ''f1'' one_cat
   \<and> collection (snd (deletePicture no_blob_delete (Some ''f1'') (Some ''d1'') one_cat)) = []
   \<and> bucket (snd (deletePicture no_blob_delete (Some ''f1'') (Some ''d1'') one_cat)) =
       bucket one_cat
   \<and> record_kept offline ''d1'' one_cat
   \<and> sent (trace (snd (deletePicture offline (Some ''f1'') (Some ''d1'') one_cat))) =
       [DeleteDocument ''d1'']
   \<and> falsy None
   \<and> collection (snd (deletePicture online None (Some ''d1'') one_cat)) = [cat_document]"
  using deletePicture_remove [of online "Some ''f1''" "Some ''d1''" one_cat "''f1''" "''d1''"]
    deletePicture_remove
      [of no_blob_delete "Some ''f1''" "Some ''d1''" one_cat "''f1''" "''d1''"]
    deletePicture_remove [of offline "Some ''f1''" "Some ''d1''" one_cat "''f1''" "''d1''"]
    deletePicture_remove [of online None "Some ''d1''" one_cat "''f1''" "''d1''"]
  by (simp add: record_kept_def blob_kept_def online_def offline_def no_blob_delete_def
      one_cat_def cat_document_def falsy_def)

section \<open>The upload control\<close>

text \<open>
  C6, as the code has it.  For every armed trigger the effect resolves and leaves the
  trigger cleared and the file reference empty, whatever happened before.  With a file
  selected, the requests it sends are an initial part of: the check of the name, the
  creation of the blob, the creation of the record, in this order; and when the upload
  returns no identifier the displayed total and the collection stay as they were.  For
  a file with a unique name, when the service accepts the three requests and the
  identifiers it generates are new, and the clock has not run backwards, the steps are
  upload, persist, increment, clear the trigger, clear the file, in this order; the
  total has grown by exactly one; and the collection holds exactly one record more,
  which every later unfiltered search that the service answers returns after the
  records it returned before.
\<close>

theorem upload_control:
  assumes "toUpload p"
  shows "fst (upload_effect env p) = Inr ()
    \<and> toUpload (snd (upload_effect env p)) = False
    \<and> image (snd (upload_effect env p)) = None
    \<and> (image p = Some f \<longrightarrow>
        (\<exists>xs. sent (trace (outside (snd (upload_effect env p)))) =
                sent (trace (outside p)) @ xs
           \<and> prefix xs [name_check f, CreateFile ''unique()'' f,
                write_request env (unique_file_id env) (name f) (new_Date env)]))
    \<and> (image p = Some f \<and> fst (uploadPicture env f (outside p)) = Inr r \<and> falsy r \<longrightarrow>
        totalImageNumber (snd (upload_effect env p)) = totalImageNumber p
        \<and> collection (outside (snd (upload_effect env p))) = collection (outside p))
    \<and> (image p = Some f \<and> \<not> name_taken env f (outside p)
        \<and> \<not> rejects env (name_check f) \<and> \<not> rejects env (CreateFile ''unique()'' f)
        \<and> unique_file_id env \<notin> b_id ` set (bucket (outside p)) \<and> unique_file_id env \<noteq> []
        \<and> new_Date env \<le> Date_now env
        \<and> \<not> write_refused env (unique_file_id env) (name f) (new_Date env) (outside p) \<longrightarrow>
        trace (outside (snd (upload_effect env p))) =
          trace (outside p) @
            [Request (name_check f), Request (CreateFile ''unique()'' f),
             Request (write_request env (unique_file_id env) (name f) (new_Date env)),
             Console (Log ''Picture database updated successfully.''),
             Set SetTotalImageNumber_prev_plus_1,
             Console (Log ''Image uploaded and database updated successfully.''),
             Set (SetToUpload False), Set (SetImage None)]
        \<and> totalImageNumber (snd (upload_effect env p)) = totalImageNumber p + 1
        \<and> bucket (outside (snd (upload_effect env p))) =
            bucket (outside p) @ [stored env f]
        \<and> collection (outside (snd (upload_effect env p))) =
            collection (outside p)
              @ [new_document env (unique_file_id env) (name f) (new_Date env)]
        \<and> (\<not> rejects env' (search_request []) \<longrightarrow>
            fst (fetchPictures env' [] (outside (snd (upload_effect env p)))) =
              Inr (Some (map picture (collection (outside p))
                @ [picture (new_document env (unique_file_id env) (name f)
                     (new_Date env))]))))"
proof -
  have always: "fst (upload_effect env p) = Inr ()
      \<and> toUpload (snd (upload_effect env p)) = False
      \<and> image (snd (upload_effect env p)) = None"
    by (simp add: upload_effect_run [OF assms])
  show ?thesis
    using always upload_effect_requests [OF _ assms, of f env]
      upload_effect_not_uploaded [OF _ assms, of f env r]
      upload_effect_done [OF assms, of f env]
    by (simp add: fetchPictures_run search_request_def startsWith_empty)
qed

theorem upload_control_witness:
  "toUpload (selected dog_png one_cat)
   \<and> image (selected dog_png one_cat) = Some dog_png
   \<and> \<not> name_taken online dog_png (outside (selected dog_png one_cat))
   \<and> \<not> rejects online (name_check dog_png)
   \<and> \<not> rejects online (CreateFile ''unique()'' dog_png)
   \<and> unique_file_id online \<notin> b_id ` set (bucket (outside (selected dog_png one_cat)))
   \<and> unique_file_id online \<noteq> []
   \<and> new_Date online \<le> Date_now online
   \<and> \<not> write_refused online (unique_file_id online) (name dog_png) (new_Date online)
        (outside (selected dog_png one_cat))
   \<and> \<not> rejects online (search_request [])
   \<and> toUpload (snd (upload_effect online (selected dog_png one_cat))) = False
   \<and> image (snd (upload_effect online (selected dog_png one_cat))) = None
   \<and> totalImageNumber (snd (upload_effect online (selected dog_png one_cat))) = 1
   \<and> fst (fetchPictures online []
        (outside (snd (upload_effect online (selected dog_png one_cat))))) =
       Inr (Some [picture cat_document,
         \<lparr>imageName = ''dog.png'', createdAt = ISO 1000, imageId = ''f2'',
          imageUrl = ''view/f2'', documentId = ''d2''\<rparr>])
   \<and> image (selected dog_png one_cat) = Some dog_png
   \<and> fst (uploadPicture offline dog_png (outside (selected dog_png one_cat))) = Inr None
   \<and> falsy None
   \<and> toUpload (snd (upload_effect offline (selected dog_png one_cat))) = False
   \<and> totalImageNumber (snd (upload_effect offline (selected dog_png one_cat))) = 0
   \<and> collection (outside (snd (upload_effect offline (selected dog_png one_cat)))) =
       [cat_document]"
proof -
  have u: "fst (uploadPicture offline dog_png (outside (selected dog_png one_cat))) =
      Inr None"
    by (simp add: uploadPicture_run offline_def)
  have s: "toUpload (selected dog_png one_cat)"
    by (simp add: selected_def)
  show ?thesis
    using upload_control [OF s, of online dog_png None online]
      upload_control [OF s, of offline dog_png None online]
    by (simp add: u falsy_def)
      (simp add: selected_def fresh_page_def one_cat_def online_def dog_png_def
        cat_document_def name_taken_def same_text_def name_check_def write_refused_def
        write_request_def new_document_def new_payload_def ID_unique_def getFileView_def
        search_request_def picture_def)
qed

text \<open>
  The claim as stated fails.  A file with a unique name is selected while the service
  rejects every request: the trigger is armed, the total does not grow and a later
  unfiltered search returns no record.  A file whose name is taken is selected: the
  trigger is armed, only the check of the name is sent, and the total does not grow.
\<close>

theorem upload_control_counterexample:
  "toUpload (selected cat_png empty_store)
   \<and> image (selected cat_png empty_store) = Some cat_png
   \<and> \<not> name_taken offline cat_png (outside (selected cat_png empty_store))
   \<and> totalImageNumber (selected cat_png empty_store) = 0
   \<and> totalImageNumber (snd (upload_effect offline (selected cat_png empty_store))) = 0
   \<and> fst (fetchPictures online []
        (outside (snd (upload_effect offline (selected cat_png empty_store))))) =
       Inr (Some [])
   \<and> toUpload (selected cat_png one_cat)
   \<and> image (selected cat_png one_cat) = Some cat_png
   \<and> totalImageNumber (selected cat_png one_cat) = 0
   \<and> totalImageNumber (snd (upload_effect online (selected cat_png one_cat))) = 0
   \<and> sent (trace (outside (snd (upload_effect online (selected cat_png one_cat))))) =
       [name_check cat_png]"
proof -
  have "fst (uploadPicture offline cat_png (outside (selected cat_png empty_store))) =
      Inr None"
    by (simp add: uploadPicture_run offline_def)
  then have "totalImageNumber (snd (upload_effect offline (selected cat_png empty_store))) = 0
      \<and> collection (outside (snd (upload_effect offline (selected cat_png empty_store)))) =
          []"
    using upload_effect_not_uploaded
      [of "selected cat_png empty_store" cat_png offline None]
    by (simp add: selected_def fresh_page_def empty_store_def falsy_def)
  moreover have "totalImageNumber (snd (upload_effect online (selected cat_png one_cat))) = 0
      \<and> sent (trace (outside (snd (upload_effect online (selected cat_png one_cat))))) =
          [name_check cat_png]"
    using upload_effect_taken [of online cat_png "selected cat_png one_cat"]
    by (simp add: selected_def fresh_page_def one_cat_def online_def cat_png_def
        name_taken_def same_text_def)
  ultimately show ?thesis
    by (simp add: fetchPictures_run search_request_def online_def)
      (simp add: selected_def fresh_page_def empty_store_def offline_def online_def
        cat_png_def name_taken_def one_cat_def)
qed

section \<open>Debounce\<close>

text \<open>
  C7.  Time is the time stamp of each event, in milliseconds.  Every \<open>onChange\<close> puts
  the text of the field into \<open>searchImage\<close> at once, and, the text having changed, drops
  the pending timeout and sets one that fires 1000 ms later with that text.  For every
  burst of keystrokes, each changing the text and each less than a second after the
  one before, begun when no timeout is due: whatever the time \<open>T\<close> reached afterwards,
  \<open>debouncedSearchTerm\<close> is the text of the last keystroke once its second has passed
  and is untouched before, and the requests sent since the burst began are none, or the
  single search for the text of the last keystroke, sent when that text differs from
  the term fetched before.
\<close>

theorem debounce:
  assumes "ks \<noteq> []" and "rapid ks" and "typing (searchImage p) ks"
    and "at_rest (fst (hd ks)) p"
  shows "(\<forall>t v q. searchImage (onChange t v q) = v)
    \<and> (\<forall>t v q. v \<noteq> searchImage q \<longrightarrow> handler (onChange t v q) = Some (t + 1000, v))
    \<and> searchImage (elapse (fetchPictures env) T (keystrokes (fetchPictures env) ks p)) =
        snd (last ks)
    \<and> debouncedSearchTerm
          (elapse (fetchPictures env) T (keystrokes (fetchPictures env) ks p)) =
        (if fst (last ks) + 1000 \<le> T then snd (last ks) else debouncedSearchTerm p)
    \<and> sent (trace (outside
          (elapse (fetchPictures env) T (keystrokes (fetchPictures env) ks p)))) =
        sent (trace (outside p)) @
          (if fst (last ks) + 1000 \<le> T \<and> snd (last ks) \<noteq> debouncedSearchTerm p
           then [search_request (snd (last ks))] else [])"
  using burst [OF assms, of "fetchPictures env"]
  by (auto simp: onChange_simps elapse_def timeout_fires_run)

theorem debounce_witness:
  "[(0, ''c''), (400, ''ca''), (900, ''cat'')] \<noteq> []
   \<and> rapid [(0, ''c''), (400, ''ca''), (900, ''cat'')]
   \<and> typing (searchImage (fresh_page one_cat)) [(0, ''c''), (400, ''ca''), (900, ''cat'')]
   \<and> at_rest (fst (hd [(0, ''c''), (400, ''ca''), (900, ''cat'')])) (fresh_page one_cat)
   \<and> debouncedSearchTerm (elapse (fetchPictures online) 1899
        (keystrokes (fetchPictures online) [(0, ''c''), (400, ''ca''), (900, ''cat'')]
           (fresh_page one_cat))) = []
   \<and> debouncedSearchTerm (elapse (fetchPictures online) 1900
        (keystrokes (fetchPictures online) [(0, ''c''), (400, ''ca''), (900, ''cat'')]
           (fresh_page one_cat))) = ''cat''
   \<and> sent (trace (outside (elapse (fetchPictures online) 1900
        (keystrokes (fetchPictures online) [(0, ''c''), (400, ''ca''), (900, ''cat'')]
           (fresh_page one_cat))))) = [ListDocuments [StartsWith ''imageName'' ''cat'']]"
  using debounce [of "[(0, ''c''), (400, ''ca''), (900, ''cat'')]" "fresh_page one_cat"
      online 1899]
    debounce [of "[(0, ''c''), (400, ''ca''), (900, ''cat'')]" "fresh_page one_cat"
      online 1900]
  by (simp add: at_rest_def fresh_page_def one_cat_def search_request_def)

section \<open>The gallery\<close>

text \<open>
  C8.  What the gallery shows is a function of the sequence of results alone.  For
  every non-empty sequence it is one card for each record, in order, the card at each
  position built from the record at that position and keyed by its \<open>imageId\<close>, and the
  placeholder image is not among them; for the empty sequence it is the placeholder
  image alone.  The page shows this gallery of \<open>imageList\<close> whenever it is not loading.
\<close>

theorem gallery_cards:
  "(images \<noteq> [] \<longrightarrow>
      length (gallery images) = length images
      \<and> (\<forall>k < length images.
            gallery images ! k = ImageCard (props (images ! k))
            \<and> key (props (images ! k)) = imageId (images ! k))
      \<and> Img ''./no-image.png'' ''No images found'' \<notin> set (gallery images))
   \<and> gallery [] = [Img ''./no-image.png'' ''No images found'']
   \<and> (\<not> loading p \<longrightarrow> render p = [Images (totalImageNumber p), Grid (gallery (imageList p))])"
  by (auto simp: gallery_def props_def render_def)

theorem gallery_cards_witness:
  "[picture cat_document] \<noteq> []
   \<and> gallery [picture cat_document] =
       [ImageCard \<lparr>key = ''f1'', c_documentId = ''d1'', c_id = ''f1'', c_name = ''cat.png'',
          c_imageUrl = ''view/f1'', c_creationDate = ISO 500\<rparr>]
   \<and> \<not> loading (fresh_page one_cat)
   \<and> render (fresh_page one_cat) = [Images 0, Grid [Img ''./no-image.png'' ''No images found'']]"
proof -
  have "gallery [picture cat_document] ! 0 = ImageCard (props ([picture cat_document] ! 0))"
    and "length (gallery [picture cat_document]) = length [picture cat_document]"
    using gallery_cards [of "[picture cat_document]" "fresh_page one_cat"] by simp_all
  then have "gallery [picture cat_document] = [ImageCard (props (picture cat_document))]"
    by (cases "gallery [picture cat_document]") simp_all
  moreover have "render (fresh_page one_cat) =
      [Images 0, Grid [Img ''./no-image.png'' ''No images found'']]"
    using gallery_cards [of "[]" "fresh_page one_cat"] by (simp add: fresh_page_def)
  ultimately show ?thesis
    by (simp add: props_def picture_def cat_document_def fresh_page_def)
qed

section \<open>The counter and the record\<close>

text \<open>
  C9.  \<open>updatePictureDatabase\<close> always resolves, never rejects.  After every blob upload
  that returned an identifier, \<open>handleUpload\<close> runs \<open>updatePictureDatabase\<close> and, whatever
  that did, increments the displayed total by one right after it.  So when the upload
  of a file succeeds and the persist step fails its validation or has its write
  refused, the total has grown by one and the collection holds no new record.
\<close>

theorem counter_without_record:
  "fst (updatePictureDatabase env i n c w) = Inr ()
   \<and> (image p = Some f \<and> uploadPicture env f (outside p) = (Inr (Some j), w') \<and> j \<noteq> [] \<longrightarrow>
      handleUpload env p =
        (Inr (), p\<lparr>totalImageNumber := totalImageNumber p + 1,
           outside := traced [Set SetTotalImageNumber_prev_plus_1,
               Console (Log ''Image uploaded and database updated successfully.'')]
             (snd (updatePictureDatabase env (Some j) (Some (name f))
                     (Some (Date (new_Date env))) w'))\<rparr>))
   \<and> (image p = Some f \<and> toUpload p \<and> \<not> name_taken env f (outside p)
       \<and> \<not> rejects env (name_check f) \<and> \<not> rejects env (CreateFile ''unique()'' f)
       \<and> unique_file_id env \<notin> b_id ` set (bucket (outside p)) \<and> unique_file_id env \<noteq> []
       \<and> (Date_now env < new_Date env
           \<or> write_refused env (unique_file_id env) (name f) (new_Date env) (outside p)) \<longrightarrow>
      totalImageNumber (snd (upload_effect env p)) = totalImageNumber p + 1
      \<and> collection (outside (snd (upload_effect env p))) = collection (outside p))"
  using upload_effect_lost [of p f env]
  by (auto simp: updatePictureDatabase_resolves handleUpload_uploaded)

theorem counter_without_record_witness:
  "image (selected cat_png empty_store) = Some cat_png
   \<and> toUpload (selected cat_png empty_store)
   \<and> uploadPicture no_writes cat_png (outside (selected cat_png empty_store)) =
       (Inr (Some ''f2''), cat_stored)
   \<and> ''f2'' \<noteq> []
   \<and> \<not> name_taken no_writes cat_png (outside (selected cat_png empty_store))
   \<and> \<not> rejects no_writes (name_check cat_png)
   \<and> \<not> rejects no_writes (CreateFile ''unique()'' cat_png)
   \<and> unique_file_id no_writes \<notin> b_id ` set (bucket (outside (selected cat_png empty_store)))
   \<and> unique_file_id no_writes \<noteq> []
   \<and> write_refused no_writes (unique_file_id no_writes) (name cat_png) (new_Date no_writes)
        (outside (selected cat_png empty_store))
   \<and> totalImageNumber (selected cat_png empty_store) = 0
   \<and> totalImageNumber (snd (handleUpload no_writes (selected cat_png empty_store))) = 1
   \<and> totalImageNumber (snd (upload_effect no_writes (selected cat_png empty_store))) = 1
   \<and> collection (outside (snd (upload_effect no_writes (selected cat_png empty_store)))) = []"
proof -
  have u: "uploadPicture no_writes cat_png (outside (selected cat_png empty_store)) =
      (Inr (Some ''f2''), cat_stored)"
    by (simp add: uploadPicture_run selected_def fresh_page_def empty_store_def no_writes_def
        online_def cat_png_def name_taken_def name_check_def cat_stored_def traced_def
        stored_def)
  show ?thesis
    using counter_without_record [of no_writes None None None empty_store
        "selected cat_png empty_store" cat_png "''f2''" cat_stored]
    by (simp add: u)
      (simp add: selected_def fresh_page_def empty_store_def no_writes_def online_def
        cat_png_def name_taken_def name_check_def write_refused_def write_request_def)
qed

section \<open>Presence\<close>

text \<open>
  C10.  \<open>updatePictureDatabase\<close> refuses only \<^verbatim>\<open>null\<close> and \<^verbatim>\<open>undefined\<close>: called with an
  empty \<open>imageId\<close> or an empty \<open>imageName\<close> and a date that is not after the current time
  it goes on to the write, sending the creation of the document, and the record is
  added when the service accepts it.  \<open>deletePicture\<close> takes the empty string for a
  missing argument: it sends no request and deletes nothing.
\<close>

theorem presence_checks_differ:
  "(t \<le> Date_now env \<and> (i = [] \<or> n = []) \<longrightarrow>
      sent (trace (snd (updatePictureDatabase env (Some i) (Some n) (Some (Date t)) w))) =
        sent (trace w) @ [write_request env i n t]
      \<and> (\<not> write_refused env i n t w \<longrightarrow>
          collection (snd (updatePictureDatabase env (Some i) (Some n) (Some (Date t)) w)) =
            collection w @ [new_document env i n t]))
   \<and> (i = [] \<or> d = [] \<longrightarrow>
      snd (deletePicture env (Some i) (Some d) w) =
        traced [Console (Error ''Image ID is required to delete a picture.'')] w
      \<and> sent (trace (snd (deletePicture env (Some i) (Some d) w))) = sent (trace w)
      \<and> collection (snd (deletePicture env (Some i) (Some d) w)) = collection w
      \<and> bucket (snd (deletePicture env (Some i) (Some d) w)) = bucket w)"
  by (simp add: updatePictureDatabase_write deletePicture_absent falsy_def)

theorem presence_checks_differ_witness:
  "(1000 :: int) \<le> Date_now online
   \<and> \<not> write_refused online [] ''cat.png'' 1000 empty_store
   \<and> collection (snd (updatePictureDatabase online (Some []) (Some ''cat.png'')
        (Some (Date 1000)) empty_store)) =
       [\<lparr>d_id = ''d2'', d_imageId = [], d_imageName = ''cat.png'',
          d_createdAt = ISO 1000, d_imageUrl = ''view/''\<rparr>]
   \<and> sent (trace (snd (deletePicture online (Some []) (Some ''d1'') one_cat))) = []
   \<and> collection (snd (deletePicture online (Some []) (Some ''d1'') one_cat)) =
       [cat_document]
   \<and> bucket (snd (deletePicture online (Some ''f1'') (Some []) one_cat)) = bucket one_cat"
  using presence_checks_differ [of 1000 online "[]" "''cat.png''" empty_store "''d1''"]
    presence_checks_differ [of 1000 online "[]" "''cat.png''" one_cat "''d1''"]
    presence_checks_differ [of 1000 online "''f1''" "''cat.png''" one_cat "[]"]
  by (simp add: online_def empty_store_def one_cat_def write_refused_def write_request_def
      new_document_def ID_unique_def getFileView_def)

end
